theory Spec2Isabelle
  imports Main "HOL-Library.Sublist"
begin

section \<open>Python strings\<close>

text \<open>
  A Python \<open>str\<close> is a sequence of code points and \<open>len\<close> counts code points. The model
  uses \<^typ>\<open>string\<close>, one \<^typ>\<open>char\<close> per code point, which covers the texts whose code
  points lie below 256. \<open>bytes\<close> are modelled by the same type.
\<close>

type_synonym bytes = string

definition isspace :: "char \<Rightarrow> bool" where
  \<comment> \<open>\<open>str.isspace\<close> on the code points below 256: TAB, LF, VT, FF, CR, FS, GS, RS, US,
      SPACE, NEL and NBSP.\<close>
  "isspace c \<longleftrightarrow> c \<in> set [CHR 0x09, CHR 0x0A, CHR 0x0B, CHR 0x0C, CHR 0x0D,
      CHR 0x1C, CHR 0x1D, CHR 0x1E, CHR 0x1F, CHR 0x20, CHR 0x85, CHR 0xA0]"

definition lstrip :: "string \<Rightarrow> string" where
  "lstrip s = dropWhile isspace s"

definition rstrip :: "string \<Rightarrow> string" where
  "rstrip s = rev (dropWhile isspace (rev s))"

definition strip :: "string \<Rightarrow> string" where
  "strip s = lstrip (rstrip s)"

definition upper_chars :: string where
  "upper_chars = ''ABCDEFGHIJKLMNOPQRSTUVWXYZ'' @
     [CHR 0xC0, CHR 0xC1, CHR 0xC2, CHR 0xC3, CHR 0xC4, CHR 0xC5, CHR 0xC6, CHR 0xC7,
      CHR 0xC8, CHR 0xC9, CHR 0xCA, CHR 0xCB, CHR 0xCC, CHR 0xCD, CHR 0xCE, CHR 0xCF,
      CHR 0xD0, CHR 0xD1, CHR 0xD2, CHR 0xD3, CHR 0xD4, CHR 0xD5, CHR 0xD6,
      CHR 0xD8, CHR 0xD9, CHR 0xDA, CHR 0xDB, CHR 0xDC, CHR 0xDD, CHR 0xDE]"

definition lower_chars :: string where
  "lower_chars = ''abcdefghijklmnopqrstuvwxyz'' @
     [CHR 0xE0, CHR 0xE1, CHR 0xE2, CHR 0xE3, CHR 0xE4, CHR 0xE5, CHR 0xE6, CHR 0xE7,
      CHR 0xE8, CHR 0xE9, CHR 0xEA, CHR 0xEB, CHR 0xEC, CHR 0xED, CHR 0xEE, CHR 0xEF,
      CHR 0xF0, CHR 0xF1, CHR 0xF2, CHR 0xF3, CHR 0xF4, CHR 0xF5, CHR 0xF6,
      CHR 0xF8, CHR 0xF9, CHR 0xFA, CHR 0xFB, CHR 0xFC, CHR 0xFD, CHR 0xFE]"

definition lower_char :: "char \<Rightarrow> char" where
  "lower_char c = (case map_of (zip upper_chars lower_chars) c of Some d \<Rightarrow> d | None \<Rightarrow> c)"

definition lower :: "string \<Rightarrow> string" where
  \<comment> \<open>\<open>str.lower\<close> on the code points below 256.\<close>
  "lower s = map lower_char s"

definition contains :: "string \<Rightarrow> string \<Rightarrow> bool" where
  \<comment> \<open>\<open>sub in s\<close>\<close>
  "contains sub s \<longleftrightarrow> sublist sub s"

fun join :: "string \<Rightarrow> string list \<Rightarrow> string" where
  "join sep [] = []"
| "join sep [x] = x"
| "join sep (x # y # ys) = x @ sep @ join sep (y # ys)"

section \<open>Terminal state parser (output_parser.py)\<close>

text \<open>
  The screen is kept by the pyte library. \<open>TerminalEmulator\<close> reads it only through
  \<open>screen.display\<close>, the list of rendered rows, so \<open>get_content\<close> and \<open>get_statusbar\<close>
  are functions of that list.
\<close>

record ParsedOutput =
  po_content :: string
  po_statusbar :: "string option"
  po_raw :: bytes

definition get_content :: "string list \<Rightarrow> string" where
  "get_content display =
     (let lines = map rstrip display;
          lines = rev (dropWhile (\<lambda>l. l = []) (rev lines))
      in join ''\<newline>'' lines)"

definition statusbar_keywords :: "string list" where
  "statusbar_keywords =
     [''token'', ''cost'', ''model'', ''context'', ''$'', ''sonnet'', ''opus'', ''haiku'']"

definition get_statusbar :: "string list \<Rightarrow> string option" where
  "get_statusbar lines =
     (if lines \<noteq> [] then
        (let last_line = strip (last lines)
         in if list_ex (\<lambda>x. contains x (lower last_line)) statusbar_keywords
            then Some last_line else None)
      else None)"

text \<open>
  \<open>OutputBuffer\<close>. The emulator state \<open>'e\<close> belongs to pyte; \<open>emu_feed\<close> stands for
  \<open>TerminalEmulator.feed\<close> (decode with replacement, feed the pyte stream, swallow any
  exception) and \<open>emu_display\<close> for \<open>screen.display\<close>.
\<close>

record 'e OutputBuffer =
  ob_buffer :: bytes
  ob_emulator :: 'e
  ob_last_content :: string
  ob_last_statusbar :: "string option"

definition OutputBuffer_feed ::
  "(bytes \<Rightarrow> 'e \<Rightarrow> 'e) \<Rightarrow> ('e \<Rightarrow> string list) \<Rightarrow> bytes \<Rightarrow> 'e OutputBuffer
     \<Rightarrow> ParsedOutput \<times> 'e OutputBuffer" where
  "OutputBuffer_feed emu_feed emu_display data b =
     (let emu = emu_feed data (ob_emulator b);
          current_content = get_content (emu_display emu);
          current_statusbar = get_statusbar (emu_display emu);
          new_content =
            (if prefix (ob_last_content b) current_content
             then drop (length (ob_last_content b)) current_content
             else current_content)
      in (\<lparr>po_content = strip new_content, po_statusbar = current_statusbar, po_raw = data\<rparr>,
          b\<lparr>ob_buffer := ob_buffer b @ data, ob_emulator := emu,
            ob_last_content := current_content, ob_last_statusbar := current_statusbar\<rparr>))"

definition row_printer_feed :: "bytes \<Rightarrow> string list \<Rightarrow> string list" where
  \<comment> \<open>A stand-in for the pyte screen in examples: every chunk fed is printed on a
      row of its own.\<close>
  "row_printer_feed data rows = rows @ [data]"

definition row_printer_display :: "string list \<Rightarrow> string list" where
  "row_printer_display rows = rows"

section \<open>Chunking protocol (output_parser.py)\<close>

definition rfind_at :: "string \<Rightarrow> string \<Rightarrow> int \<Rightarrow> int" where
  \<comment> \<open>One step of \<open>rfind\<close>: \<open>r\<close> is the answer for the tail of the string.\<close>
  "rfind_at sub s r = (if r \<ge> 0 then r + 1 else if prefix sub s then 0 else -1)"

fun rfind :: "string \<Rightarrow> string \<Rightarrow> int" where
  \<comment> \<open>\<open>s.rfind(sub)\<close>: the highest index at which \<open>sub\<close> starts in \<open>s\<close>, or \<open>-1\<close>.\<close>
  "rfind sub [] = (if sub = [] then 0 else -1)"
| "rfind sub (c # cs) = rfind_at sub (c # cs) (rfind sub cs)"

fun count_fence :: "string \<Rightarrow> nat" where
  \<comment> \<open>\<open>s.count("```")\<close>: the occurrences of the fence marker, counted from the left
      without overlap.\<close>
  "count_fence (a # b # c # s) =
     (if a = CHR ''`'' \<and> b = CHR ''`'' \<and> c = CHR ''`''
      then Suc (count_fence s) else count_fence (b # c # s))"
| "count_fence s = 0"

definition py_take :: "int \<Rightarrow> 'a list \<Rightarrow> 'a list" where
  \<comment> \<open>The slice \<open>s[:n]\<close>; a negative \<open>n\<close> counts from the end.\<close>
  "py_take n s = (if n \<ge> 0 then take (nat n) s else take (length s - nat (- n)) s)"

definition py_drop :: "int \<Rightarrow> 'a list \<Rightarrow> 'a list" where
  \<comment> \<open>The slice \<open>s[n:]\<close>.\<close>
  "py_drop n s = (if n \<ge> 0 then drop (nat n) s else drop (length s - nat (- n)) s)"

definition split_point :: "string \<Rightarrow> int \<Rightarrow> int" where
  \<comment> \<open>The split point chosen within \<open>chunk = remaining[:limit]\<close>: after a closed code
      block, else after a paragraph break, else after a line break, else after a space,
      each only beyond the middle of the chunk; else the limit itself.\<close>
  "split_point chunk limit =
     (let code_block_end = rfind ''```\<newline>'' chunk in
      if code_block_end > limit div 2 then code_block_end + 4
      else
        let para_break = rfind ''\<newline>\<newline>'' chunk in
        if para_break > limit div 2 then para_break + 2
        else
          let line_break = rfind ''\<newline>'' chunk in
          if line_break > limit div 2 then line_break + 1
          else
            let space = rfind '' '' chunk in
            if space > limit div 2 then space + 1
            else limit)"

text \<open>
  The \<open>while remaining:\<close> loop, with the list \<open>chunks\<close> built so far. The loop need not
  end, so its result is an option: \<open>None\<close> stands for a run that never returns.
\<close>

partial_function (option) chunk_loop :: "int \<Rightarrow> string list \<Rightarrow> string \<Rightarrow> string list option"
  where
  "chunk_loop limit chunks remaining =
     (if remaining = [] then Some chunks
      else if int (length remaining) \<le> limit then Some (chunks @ [remaining])
      else
        let chunk = py_take limit remaining;
            sp = split_point chunk limit;
            chunk_text = py_take sp remaining
        in if count_fence chunk_text mod 2 = 1
           then chunk_loop limit (chunks @ [rstrip chunk_text @ ''\<newline>```''])
                  (''```\<newline>'' @ py_drop sp remaining)
           else chunk_loop limit (chunks @ [chunk_text]) (py_drop sp remaining))"

declare chunk_loop.simps [code]

definition chunk_for_discord :: "string \<Rightarrow> int \<Rightarrow> string list option" where
  "chunk_for_discord text limit =
     (if int (length text) \<le> limit then Some (if text \<noteq> [] then [text] else [])
      else chunk_loop limit [] text)"

definition DISCORD_MSG_LIMIT :: int where
  "DISCORD_MSG_LIMIT = 2000"

text \<open>
  What the pieces of a text look like. \<open>opener opened\<close> is the fence that the loop puts
  in front of the remaining text after it has closed a piece. A piece is either the
  next part \<open>body\<close> of the text as it is (behind the opener, if one is pending), within
  the limit; or that part with the white space at its end removed and a closing fence
  appended, and then the next piece starts with the opener. The bodies, in order, make
  up the text.
\<close>

definition opener :: "bool \<Rightarrow> string" where
  "opener opened = (if opened then ''```\<newline>'' else [])"

inductive reassembles :: "int \<Rightarrow> bool \<Rightarrow> string list \<Rightarrow> string \<Rightarrow> bool"
  for limit :: int where
  ra_done: "reassembles limit False [] []"
| ra_plain: "reassembles limit False ps t \<Longrightarrow> int (length (opener opened @ body)) \<le> limit
     \<Longrightarrow> reassembles limit opened ((opener opened @ body) # ps) (body @ t)"
| ra_repaired: "reassembles limit True ps t
     \<Longrightarrow> reassembles limit opened ((rstrip (opener opened @ body) @ ''\<newline>```'') # ps) (body @ t)"

code_pred reassembles .

section \<open>Stream events (stream_handler.py)\<close>

text \<open>
  The exceptions that the model tells apart. \<open>OSError\<close> stands for every \<open>OSError\<close> other
  than \<open>NotADirectoryError\<close>, which has a constructor of its own.
\<close>

datatype error =
    RuntimeError string
  | ValueError string
  | TypeError
  | KeyError
  | OSError
  | NotADirectoryError
  | JSONDecodeError
  | UnicodeDecodeError
  | CancelledError

text \<open>
  A decoded JSON value. The type \<open>'c\<close> stands for Python's \<open>float\<close>: the model never
  looks into a float, it only adds two of them where the code does, so the addition is
  the one of the type class and no law of arithmetic is assumed for it.
\<close>

datatype 'c json =
    JNull
  | JBool bool
  | JInt int
  | JFloat 'c
  | JStr string
  | JArr "'c json list"
  | JObj "(string \<times> 'c json) list"

text \<open>
  The dataclass \<open>StreamEvent\<close>, with the types its fields are declared with. The
  events are taken as \<open>_parse_event\<close> has built them from the lines of the child's
  output: for a result line, \<open>session_id\<close> and \<open>model\<close> are what \<open>data.get\<close> finds
  (\<open>None\<close> if the key is missing), and a count or cost that is missing is 0.
\<close>

record 'c StreamEvent =
  ev_type :: string
  ev_content :: string
  ev_raw :: "(string \<times> 'c json) list"
  ev_session_id :: "string option"
  ev_model :: "string option"
  ev_input_tokens :: int
  ev_output_tokens :: int
  ev_cost_usd :: 'c

definition StreamEvent_make :: "string \<Rightarrow> string \<Rightarrow> ('c::zero) StreamEvent" where
  \<comment> \<open>\<open>StreamEvent(type=t, content=c)\<close>, every other field at its default.\<close>
  "StreamEvent_make t c =
     \<lparr>ev_type = t, ev_content = c, ev_raw = [], ev_session_id = None, ev_model = None,
      ev_input_tokens = 0, ev_output_tokens = 0, ev_cost_usd = 0\<rparr>"

definition truthy :: "string option \<Rightarrow> bool" where
  \<comment> \<open>The truth value of a \<open>str | None\<close>: neither \<open>None\<close> nor the empty string.\<close>
  "truthy v = (case v of None \<Rightarrow> False | Some s \<Rightarrow> s \<noteq> [])"

section \<open>Stream output formatter (stream_parser.py)\<close>

text \<open>
  \<open>StreamBuffer\<close>. The field \<open>min_flush_interval\<close> is never read by the code and is left
  out.
\<close>

record StreamBuffer =
  sb_content_buffer :: string
  sb_last_flush :: string
  sb_is_streaming :: bool
  sb_flush_threshold :: int

definition StreamBuffer_init :: StreamBuffer where
  "StreamBuffer_init =
     \<lparr>sb_content_buffer = [], sb_last_flush = [], sb_is_streaming = False,
      sb_flush_threshold = 500\<rparr>"

definition StreamBuffer_flush :: "StreamBuffer \<Rightarrow> string \<times> StreamBuffer" where
  "StreamBuffer_flush b =
     (let content = sb_content_buffer b
      in (content, b\<lparr>sb_last_flush := content, sb_content_buffer := []\<rparr>))"

definition StreamBuffer_feed :: "'c StreamEvent \<Rightarrow> StreamBuffer \<Rightarrow> string option \<times> StreamBuffer"
  where
  "StreamBuffer_feed event b =
     (if ev_type event = ''assistant'' then
        (let b1 = b\<lparr>sb_is_streaming := False\<rparr>
         in if ev_content event \<noteq> []
            then (Some (ev_content event), b1\<lparr>sb_content_buffer := []\<rparr>)
            else (None, b1))
      else if ev_type event = ''content_block_delta'' then
        (let b1 = b\<lparr>sb_is_streaming := True,
                      sb_content_buffer := sb_content_buffer b @ ev_content event\<rparr>
         in if int (length (sb_content_buffer b1)) \<ge> sb_flush_threshold b1
            then (Some (fst (StreamBuffer_flush b1)), snd (StreamBuffer_flush b1))
            else (None, b1))
      else if ev_type event = ''result'' then
        (let b1 = b\<lparr>sb_is_streaming := False\<rparr>
         in if sb_content_buffer b1 \<noteq> []
            then (Some (fst (StreamBuffer_flush b1)), snd (StreamBuffer_flush b1))
            else (None, b1))
      else if ev_type event = ''error'' then
        (Some (''**Error:** '' @ ev_content event), b\<lparr>sb_is_streaming := False\<rparr>)
      else (None, b))"

definition StreamBuffer_clear :: "StreamBuffer \<Rightarrow> StreamBuffer" where
  "StreamBuffer_clear b =
     b\<lparr>sb_content_buffer := [], sb_last_flush := [], sb_is_streaming := False\<rparr>"

record 'c StatusInfo =
  si_model :: "string option"
  si_input_tokens :: int
  si_output_tokens :: int
  si_cost_usd :: 'c
  si_session_id :: "string option"

definition from_event :: "'c StreamEvent \<Rightarrow> 'c StatusInfo" where
  "from_event event =
     \<lparr>si_model = ev_model event, si_input_tokens = ev_input_tokens event,
      si_output_tokens = ev_output_tokens event, si_cost_usd = ev_cost_usd event,
      si_session_id = ev_session_id event\<rparr>"

text \<open>
  \<open>format_tool_use\<close> walks through the decoded JSON of an assistant event. \<open>dict_get\<close> is
  \<open>d.get(key, default)\<close>. \<open>iterate\<close> is what a \<open>for\<close> loop sees of a value: the items of a
  list, the characters of a string, the keys of a dictionary; any other value raises
  \<open>TypeError\<close>. \<open>py_str\<close>, a parameter, is \<open>str()\<close> on a value that is not a string (the
  f-string formats the tool name with it).
\<close>

definition dict_get :: "(string \<times> 'c json) list \<Rightarrow> string \<Rightarrow> 'c json \<Rightarrow> 'c json" where
  "dict_get d key dflt = (case map_of d key of None \<Rightarrow> dflt | Some v \<Rightarrow> v)"

definition iterate :: "'c json \<Rightarrow> error + 'c json list" where
  "iterate v =
     (case v of
        JArr items \<Rightarrow> Inr items
      | JStr s \<Rightarrow> Inr (map (\<lambda>c. JStr [c]) s)
      | JObj d \<Rightarrow> Inr (map (\<lambda>kv. JStr (fst kv)) d)
      | _ \<Rightarrow> Inl TypeError)"

definition format_value :: "('c json \<Rightarrow> string) \<Rightarrow> 'c json \<Rightarrow> string" where
  "format_value py_str v = (case v of JStr s \<Rightarrow> s | _ \<Rightarrow> py_str v)"

definition tool_use_of :: "('c json \<Rightarrow> string) \<Rightarrow> 'c json \<Rightarrow> string list" where
  \<comment> \<open>The body of the loop over the content blocks: what one block adds to
      \<open>tool_uses\<close>.\<close>
  "tool_use_of py_str block =
     (case block of
        JObj d \<Rightarrow>
          (if map_of d ''type'' = Some (JStr ''tool_use'')
           then [''`'' @ format_value py_str (dict_get d ''name'' (JStr ''unknown'')) @ ''`'']
           else [])
      | _ \<Rightarrow> [])"

definition format_tool_use :: "('c json \<Rightarrow> string) \<Rightarrow> 'c StreamEvent \<Rightarrow> error + string option"
  where
  "format_tool_use py_str event =
     (if ev_type event = ''assistant'' then
        (let message = dict_get (ev_raw event) ''message'' (JObj []);
             content_blocks = (case message of JObj d \<Rightarrow> dict_get d ''content'' (JArr [])
                               | _ \<Rightarrow> JArr [])
         in case iterate content_blocks of
              Inl e \<Rightarrow> Inl e
            | Inr blocks \<Rightarrow>
                (let tool_uses = concat (map (tool_use_of py_str) blocks)
                 in if tool_uses \<noteq> []
                    then Inr (Some (''*Using tools: '' @ join '', '' tool_uses @ ''*''))
                    else Inr None))
      else Inr None)"

record 'c StreamOutputFormatter =
  fm_buffer :: StreamBuffer
  fm_status :: "'c StatusInfo"
  fm_pending_chunks :: "string list"

definition StreamOutputFormatter_init :: "('c::zero) StreamOutputFormatter" where
  "StreamOutputFormatter_init =
     \<lparr>fm_buffer = StreamBuffer_init,
      fm_status = \<lparr>si_model = None, si_input_tokens = 0, si_output_tokens = 0,
                   si_cost_usd = 0, si_session_id = None\<rparr>,
      fm_pending_chunks = []\<rparr>"

text \<open>
  \<open>StreamOutputFormatter.feed\<close>. The result is \<open>None\<close> if the chunking never returns,
  \<open>Some (Inl e)\<close> if an exception leaves the method, and otherwise the chunks to send
  with the formatter as it is afterwards.
\<close>

definition StreamOutputFormatter_feed ::
  "('c json \<Rightarrow> string) \<Rightarrow> 'c StreamEvent \<Rightarrow> 'c StreamOutputFormatter
     \<Rightarrow> (error + string list \<times> 'c StreamOutputFormatter) option" where
  "StreamOutputFormatter_feed py_str event f =
     (case format_tool_use py_str event of
        Inl e \<Rightarrow> Some (Inl e)
      | Inr tool_msg \<Rightarrow>
          (let chunks = (if truthy tool_msg then [the tool_msg] else []);
               content = fst (StreamBuffer_feed event (fm_buffer f));
               f1 = f\<lparr>fm_buffer := snd (StreamBuffer_feed event (fm_buffer f))\<rparr>
           in case (if truthy content then chunk_for_discord (the content) DISCORD_MSG_LIMIT
                    else Some []) of
                None \<Rightarrow> None
              | Some cs \<Rightarrow>
                  Some (Inr (chunks @ cs,
                    if ev_type event = ''result''
                    then f1\<lparr>fm_status := from_event event\<rparr> else f1))))"

section \<open>Configuration, file system and authentication (config.py, auth.py)\<close>

text \<open>
  A path is the list of its components. The file system maps each path to what is there:
  a directory, a regular file with its text, or a symbolic link with its target.
  \<open>Path.exists\<close>, \<open>is_dir\<close> and \<open>open\<close> follow links at the last component of the path;
  \<open>follow\<close> does that, through at most 40 links, beyond which the operating system gives
  up. No path is reached under two names through a link in one of its directories.
  \<open>config\<close> holds the two settings that the functions below read.
\<close>

type_synonym path = "string list"

datatype node = Dir | File bytes | Symlink path

type_synonym filesystem = "path \<Rightarrow> node option"

primrec follow :: "nat \<Rightarrow> filesystem \<Rightarrow> path \<Rightarrow> node option" where
  "follow 0 fs p = None"
| "follow (Suc n) fs p =
     (case fs p of
        Some (Symlink target) \<Rightarrow> follow n fs target
      | other \<Rightarrow> other)"

definition path_exists :: "filesystem \<Rightarrow> path \<Rightarrow> bool" where
  "path_exists fs p \<longleftrightarrow> follow 40 fs p \<noteq> None"

definition is_dir :: "filesystem \<Rightarrow> path \<Rightarrow> bool" where
  "is_dir fs p \<longleftrightarrow> follow 40 fs p = Some Dir"

record config =
  ANTHROPIC_API_KEY :: "string option"
  WORKSPACE_BASE :: path

definition isalnum :: "char \<Rightarrow> bool" where
  \<comment> \<open>\<open>str.isalnum\<close> on the code points below 256.\<close>
  "isalnum c \<longleftrightarrow>
     (let n = (of_char c :: nat) in
      (48 \<le> n \<and> n \<le> 57) \<or> (65 \<le> n \<and> n \<le> 90) \<or> (97 \<le> n \<and> n \<le> 122) \<or>
      n \<in> {170, 178, 179, 181, 185, 186, 188, 189, 190} \<or>
      (192 \<le> n \<and> n \<le> 214) \<or> (216 \<le> n \<and> n \<le> 246) \<or> (248 \<le> n \<and> n \<le> 255))"

definition get_user_workspace :: "config \<Rightarrow> string \<Rightarrow> path" where
  \<comment> \<open>\<open>WORKSPACE_BASE / safe_id\<close>; joining the empty string gives the base itself.\<close>
  "get_user_workspace cfg user_id =
     (let safe_id = filter (\<lambda>c. isalnum c \<or> c \<in> set ''-_'') user_id
      in if safe_id = [] then WORKSPACE_BASE cfg else WORKSPACE_BASE cfg @ [safe_id])"

definition in_the_way :: "filesystem \<Rightarrow> path \<Rightarrow> bool" where
  \<comment> \<open>Something other than a directory (or a link to one) is at the path.\<close>
  "in_the_way fs p \<longleftrightarrow> fs p \<noteq> None \<and> \<not> is_dir fs p"

definition mkdir_parents :: "path \<Rightarrow> filesystem \<Rightarrow> error + filesystem" where
  \<comment> \<open>\<open>p.mkdir(parents=True, exist_ok=True)\<close>: raises an \<open>OSError\<close> (\<open>FileExistsError\<close>
      or \<open>NotADirectoryError\<close>) if something that is not a directory is in the way, and
      otherwise creates the directories that are missing on the way to \<open>p\<close>.\<close>
  "mkdir_parents p fs =
     (if list_ex (in_the_way fs) (prefixes p) then Inl OSError
      else Inr (\<lambda>q. if prefix q p \<and> fs q = None then Some Dir else fs q))"

definition ensure_workspace :: "config \<Rightarrow> string \<Rightarrow> filesystem \<Rightarrow> error + path \<times> filesystem"
  where
  "ensure_workspace cfg user_id fs =
     (let workspace = get_user_workspace cfg user_id
      in case mkdir_parents workspace fs of
           Inl e \<Rightarrow> Inl e
         | Inr fs' \<Rightarrow> Inr (workspace, fs'))"

datatype AuthMethod = OAUTH | API_KEY | NONE

definition get_credentials_path :: "config \<Rightarrow> string \<Rightarrow> path" where
  "get_credentials_path cfg user_id =
     get_user_workspace cfg user_id @ [''.claude'', ''.credentials.json'']"

text \<open>
  \<open>validate_credentials_json\<close> works on whatever value the text decodes to, and the
  operators it uses raise \<open>TypeError\<close> on values they do not apply to. \<open>py_contains\<close> is
  \<open>key in v\<close>: a key of a dictionary, an item of a list, a part of a string. \<open>py_item\<close>
  is \<open>v[key]\<close> for a string \<open>key\<close>. The function is given the decoded value: the text that
  it receives is \<open>json.dumps\<close> of that value, which \<open>json.loads\<close> decodes to the value
  again. A dictionary is a list of pairs with distinct keys.
\<close>

definition py_contains :: "string \<Rightarrow> 'c json \<Rightarrow> error + bool" where
  "py_contains key v =
     (case v of
        JObj d \<Rightarrow> Inr (map_of d key \<noteq> None)
      | JArr items \<Rightarrow> Inr (JStr key \<in> set items)
      | JStr s \<Rightarrow> Inr (contains key s)
      | _ \<Rightarrow> Inl TypeError)"

definition py_item :: "'c json \<Rightarrow> string \<Rightarrow> error + 'c json" where
  "py_item v key =
     (case v of
        JObj d \<Rightarrow> (case map_of d key of None \<Rightarrow> Inl KeyError | Some x \<Rightarrow> Inr x)
      | _ \<Rightarrow> Inl TypeError)"

fun has_keys :: "string list \<Rightarrow> 'c json \<Rightarrow> error + bool" where
  \<comment> \<open>The loop over \<open>required_keys\<close>: \<open>False\<close> at the first key that is missing.\<close>
  "has_keys [] oauth = Inr True"
| "has_keys (key # keys) oauth =
     (case py_contains key oauth of
        Inl e \<Rightarrow> Inl e
      | Inr found \<Rightarrow> if found then has_keys keys oauth else Inr False)"

definition nonempty_str :: "'c json \<Rightarrow> bool" where
  \<comment> \<open>\<open>isinstance(v, str) and v\<close>\<close>
  "nonempty_str v = (case v of JStr s \<Rightarrow> s \<noteq> [] | _ \<Rightarrow> False)"

definition is_number :: "'c json \<Rightarrow> bool" where
  \<comment> \<open>\<open>isinstance(v, int | float)\<close>; a \<open>bool\<close> is an \<open>int\<close>.\<close>
  "is_number v = (case v of JInt _ \<Rightarrow> True | JFloat _ \<Rightarrow> True | JBool _ \<Rightarrow> True | _ \<Rightarrow> False)"

definition validate_credentials_json :: "'c json \<Rightarrow> error + 'c json option" where
  "validate_credentials_json data =
     (case py_contains ''claudeAiOauth'' data of
        Inl e \<Rightarrow> Inl e
      | Inr found \<Rightarrow>
          if \<not> found then Inr None
          else
            (case py_item data ''claudeAiOauth'' of
               Inl e \<Rightarrow> Inl e
             | Inr oauth \<Rightarrow>
                 (case has_keys [''accessToken'', ''refreshToken'', ''expiresAt''] oauth of
                    Inl e \<Rightarrow> Inl e
                  | Inr all_there \<Rightarrow>
                      if \<not> all_there then Inr None
                      else
                        (case py_item oauth ''accessToken'' of
                           Inl e \<Rightarrow> Inl e
                         | Inr access \<Rightarrow>
                             if \<not> nonempty_str access then Inr None
                             else
                               (case py_item oauth ''refreshToken'' of
                                  Inl e \<Rightarrow> Inl e
                                | Inr refresh \<Rightarrow>
                                    if \<not> nonempty_str refresh then Inr None
                                    else
                                      (case py_item oauth ''expiresAt'' of
                                         Inl e \<Rightarrow> Inl e
                                       | Inr expires \<Rightarrow>
                                           if \<not> is_number expires then Inr None
                                           else Inr (Some data)))))))"

text \<open>
  \<open>has_valid_credentials\<close>. \<open>read_json\<close> stands for \<open>json.load\<close> on the text of the file:
  the decoded value, or the exception raised. The \<open>except\<close> clause turns a
  \<open>JSONDecodeError\<close> and every \<open>OSError\<close> (the one of \<open>open\<close> on a directory is one) into
  the answer \<open>False\<close>; any other exception leaves the function.
\<close>

definition is_OSError :: "error \<Rightarrow> bool" where
  "is_OSError e \<longleftrightarrow> e = OSError \<or> e = NotADirectoryError"

definition has_valid_credentials ::
  "(bytes \<Rightarrow> error + 'c json) \<Rightarrow> config \<Rightarrow> string \<Rightarrow> filesystem \<Rightarrow> error + bool" where
  "has_valid_credentials read_json cfg user_id fs =
     (case follow 40 fs (get_credentials_path cfg user_id) of
        None \<Rightarrow> Inr False
      | Some (File text) \<Rightarrow>
          (case read_json text of
             Inl e \<Rightarrow> if e = JSONDecodeError \<or> is_OSError e then Inr False else Inl e
           | Inr data \<Rightarrow>
               (case validate_credentials_json data of
                  Inl e \<Rightarrow> if e = JSONDecodeError \<or> is_OSError e then Inr False else Inl e
                | Inr result \<Rightarrow> Inr (result \<noteq> None)))
      | Some _ \<Rightarrow> Inr False)"

definition get_auth_method ::
  "(bytes \<Rightarrow> error + 'c json) \<Rightarrow> config \<Rightarrow> string \<Rightarrow> filesystem \<Rightarrow> error + AuthMethod" where
  "get_auth_method read_json cfg user_id fs =
     (case has_valid_credentials read_json cfg user_id fs of
        Inl e \<Rightarrow> Inl e
      | Inr valid \<Rightarrow>
          if valid then Inr OAUTH
          else if truthy (ANTHROPIC_API_KEY cfg) then Inr API_KEY
          else Inr NONE)"

definition resolve_auth_method ::
  "(bytes \<Rightarrow> error + 'c json) \<Rightarrow> config \<Rightarrow> string \<Rightarrow> AuthMethod option \<Rightarrow> filesystem
     \<Rightarrow> error + AuthMethod" where
  \<comment> \<open>\<open>if auth_method is None: auth_method = get_auth_method(user_id)\<close>, in both
      session managers.\<close>
  "resolve_auth_method read_json cfg user_id auth_method fs =
     (case auth_method of
        None \<Rightarrow> get_auth_method read_json cfg user_id fs
      | Some a \<Rightarrow> Inr a)"

section \<open>Streaming transport (stream_handler.py)\<close>

text \<open>
  The child processes. A process is known by its number in the order of creation;
  \<open>pt_procs\<close> holds, for each process created so far, the user it was created for and
  its command line, \<open>pt_returncode\<close>
  its return code once it has ended (\<open>None\<close> while it runs), and \<open>pt_signals\<close> the
  signals sent so far. A process that was sent \<open>SIGKILL\<close> counts as ended, with the
  return code -9.
\<close>

datatype signal = SIGTERM | SIGKILL

record proc_table =
  pt_procs :: "(string \<times> string list) list"
  pt_returncode :: "nat \<Rightarrow> int option"
  pt_signals :: "(nat \<times> signal) list"

definition spawn :: "string \<Rightarrow> string list \<Rightarrow> proc_table \<Rightarrow> nat \<times> proc_table" where
  "spawn user_id cmd pt =
     (length (pt_procs pt), pt\<lparr>pt_procs := pt_procs pt @ [(user_id, cmd)]\<rparr>)"

definition send_signal :: "nat \<Rightarrow> signal \<Rightarrow> proc_table \<Rightarrow> proc_table" where
  "send_signal p sig pt =
     (let pt1 = pt\<lparr>pt_signals := pt_signals pt @ [(p, sig)]\<rparr>
      in if sig = SIGKILL \<and> pt_returncode pt p = None
         then pt1\<lparr>pt_returncode := (pt_returncode pt)(p := Some (- 9))\<rparr> else pt1)"

text \<open>
  What happens while the parent waits, for at most five seconds, for a child that it
  has asked to terminate: the child ends in time with a return code, or the wait times
  out, or (for an awaited wait only) the waiting task is itself cancelled.
\<close>

datatype grace = Exited int | Timeout | WaitCancelled

record 'c StreamSession =
  ss_user_id :: string
  ss_workspace :: path
  ss_auth_method :: AuthMethod
  ss_session_id :: "string option"
  ss_process :: "nat option"
  ss_created_at :: nat
  ss_last_activity :: nat
  ss_total_input_tokens :: int
  ss_total_output_tokens :: int
  ss_total_cost_usd :: 'c
  ss_model :: "string option"

definition is_busy :: "'c StreamSession \<Rightarrow> proc_table \<Rightarrow> bool" where
  "is_busy s pt = (case ss_process s of None \<Rightarrow> False | Some p \<Rightarrow> pt_returncode pt p = None)"

definition build_command :: "'c StreamSession \<Rightarrow> string \<Rightarrow> bool \<Rightarrow> string list" where
  "build_command s prompt continue_session =
     [''claude'', ''-p'', prompt, ''--output-format'', ''stream-json'',
      ''--dangerously-skip-permissions''] @
     (if continue_session \<and> truthy (ss_session_id s)
      then [''--continue'', the (ss_session_id s)] else [])"

definition busy_error :: error where
  "busy_error = RuntimeError ''Session is busy processing another request''"

text \<open>
  \<open>send_message\<close> is an asynchronous generator. Its first part runs up to the creation
  of the subprocess. \<open>launch\<close> tells how the preparation of the home directory and the
  creation of the subprocess go: \<open>None\<close> if they succeed, \<open>Some e\<close> if one of them raises
  \<open>e\<close> (then no process exists). \<open>now\<close> is the clock.
\<close>

definition send_message_start ::
  "nat \<Rightarrow> error option \<Rightarrow> string \<Rightarrow> 'c StreamSession \<Rightarrow> proc_table
     \<Rightarrow> (error + unit) \<times> 'c StreamSession \<times> proc_table" where
  "send_message_start now launch message s pt =
     (if is_busy s pt then (Inl busy_error, s, pt)
      else case launch of
             Some e \<Rightarrow> (Inl e, s, pt)
           | None \<Rightarrow>
               (let cmd = build_command s message True
                in (Inr (),
                    s\<lparr>ss_process := Some (fst (spawn (ss_user_id s) cmd pt)),
                      ss_last_activity := now\<rparr>,
                    snd (spawn (ss_user_id s) cmd pt))))"

text \<open>
  The body of the loop over the events, for one event read at the time \<open>now\<close>. The
  callback \<open>on_event\<close> is not given the session and its exceptions are swallowed, so it
  does not appear.
\<close>

definition on_event_read :: "nat \<Rightarrow> ('c::plus) StreamEvent \<Rightarrow> 'c StreamSession \<Rightarrow> 'c StreamSession"
  where
  "on_event_read now event s =
     (let s1 = s\<lparr>ss_last_activity := now\<rparr>
      in if ev_type event = ''result'' \<and> truthy (ev_session_id event) then
           s1\<lparr>ss_session_id := ev_session_id event,
              ss_model := (if truthy (ev_model event) then ev_model event else ss_model s1),
              ss_total_input_tokens := ss_total_input_tokens s1 + ev_input_tokens event,
              ss_total_output_tokens := ss_total_output_tokens s1 + ev_output_tokens event,
              ss_total_cost_usd := ss_total_cost_usd s1 + ev_cost_usd event\<rparr>
         else s1)"

text \<open>
  The second part of \<open>send_message\<close>: the loop over the events inside \<open>try\<close>, and the
  \<open>finally\<close> clause. \<open>events\<close> are the events that the loop gets from \<open>_read_events\<close>, each
  with the time of its arrival; \<open>stop\<close> tells how the iteration ends after them: the
  stream of events is exhausted, or an exception is raised in the loop (a cancellation
  is one), or the consumer closes the generator. The result holds the events yielded.
\<close>

datatype stop = Exhausted | Raised error | Closed

definition send_message_iterate ::
  "(nat \<times> ('c::plus) StreamEvent) list \<Rightarrow> stop \<Rightarrow> 'c StreamSession
     \<Rightarrow> ((error + unit) \<times> 'c StreamEvent list) \<times> 'c StreamSession" where
  "send_message_iterate events stop s =
     (let s1 = foldl (\<lambda>s (now, event). on_event_read now event s) s events
      in (((case stop of Raised e \<Rightarrow> Inl e | _ \<Rightarrow> Inr ()), map snd events),
          s1\<lparr>ss_process := None\<rparr>))"

definition send_message ::
  "nat \<Rightarrow> error option \<Rightarrow> string \<Rightarrow> (nat \<times> ('c::plus) StreamEvent) list \<Rightarrow> stop
     \<Rightarrow> 'c StreamSession \<Rightarrow> proc_table
     \<Rightarrow> ((error + unit) \<times> 'c StreamEvent list) \<times> 'c StreamSession \<times> proc_table" where
  "send_message now launch message events stop s pt =
     (case send_message_start now launch message s pt of
        (Inl e, s1, pt1) \<Rightarrow> ((Inl e, []), s1, pt1)
      | (Inr _, s1, pt1) \<Rightarrow>
          (fst (send_message_iterate events stop s1),
           snd (send_message_iterate events stop s1), pt1))"

text \<open>
  \<open>cancel\<close>. \<open>asyncio.wait_for\<close> signals the timeout by the built-in \<open>TimeoutError\<close> (from
  Python 3.11 on), which the code catches.
\<close>

definition cancel :: "grace \<Rightarrow> 'c StreamSession \<Rightarrow> proc_table
    \<Rightarrow> (error + unit) \<times> 'c StreamSession \<times> proc_table" where
  "cancel g s pt =
     (case ss_process s of
        None \<Rightarrow> (Inr (), s, pt)
      | Some p \<Rightarrow>
          if pt_returncode pt p = None then
            (let pt1 = send_signal p SIGTERM pt
             in case g of
                  Exited rc \<Rightarrow>
                    (Inr (), s\<lparr>ss_process := None\<rparr>,
                     pt1\<lparr>pt_returncode := (pt_returncode pt1)(p := Some rc)\<rparr>)
                | Timeout \<Rightarrow> (Inr (), s\<lparr>ss_process := None\<rparr>, send_signal p SIGKILL pt1)
                | WaitCancelled \<Rightarrow> (Inl CancelledError, s, pt1))
          else (Inr (), s, pt))"

definition StreamSession_new :: "string \<Rightarrow> path \<Rightarrow> AuthMethod \<Rightarrow> nat \<Rightarrow> ('c::zero) StreamSession"
  where
  \<comment> \<open>\<open>StreamSession(user_id=.., workspace=.., auth_method=..)\<close> at the time \<open>now\<close>, every
      other field at its default.\<close>
  "StreamSession_new user_id workspace auth_method now =
     \<lparr>ss_user_id = user_id, ss_workspace = workspace, ss_auth_method = auth_method,
      ss_session_id = None, ss_process = None, ss_created_at = now,
      ss_last_activity = now, ss_total_input_tokens = 0,
      ss_total_output_tokens = 0, ss_total_cost_usd = 0, ss_model = None\<rparr>"

definition create_stream_session ::
  "config \<Rightarrow> nat \<Rightarrow> string \<Rightarrow> AuthMethod \<Rightarrow> filesystem
     \<Rightarrow> error + ('c::zero) StreamSession \<times> filesystem" where
  "create_stream_session cfg now user_id auth_method fs =
     (case ensure_workspace cfg user_id fs of
        Inl e \<Rightarrow> Inl e
      | Inr (workspace, fs') \<Rightarrow> Inr (StreamSession_new user_id workspace auth_method now, fs'))"

definition live_transports :: "proc_table \<Rightarrow> string \<Rightarrow> nat set" where
  \<comment> \<open>The child processes created for a user that are still running.\<close>
  "live_transports pt user_id =
     set (filter (\<lambda>p. fst (pt_procs pt ! p) = user_id \<and> pt_returncode pt p = None)
            [0..<length (pt_procs pt)])"

section \<open>Session manager, streaming variant (stream_session_manager.py)\<close>

record 'c UserStreamSession =
  uss_user_id :: string
  uss_stream :: "'c StreamSession"
  uss_formatter :: "'c StreamOutputFormatter"
  uss_created_at :: nat
  uss_current_task :: "nat option"

record 'c StreamSessionManager =
  ssm_sessions :: "string \<rightharpoonup> 'c UserStreamSession"
  ssm_output_callbacks :: "string \<rightharpoonup> nat"
  ssm_cleanup_task :: "nat option"

definition auth_error :: error where
  "auth_error =
     ValueError ''No authentication configured. Use /cc login or set ANTHROPIC_API_KEY.''"

definition StreamSessionManager_start_session ::
  "(bytes \<Rightarrow> error + 'd json) \<Rightarrow> config \<Rightarrow> nat \<Rightarrow> string \<Rightarrow> AuthMethod option
     \<Rightarrow> ('c::zero) StreamSessionManager \<Rightarrow> filesystem
     \<Rightarrow> (error + 'c UserStreamSession) \<times> 'c StreamSessionManager \<times> filesystem" where
  "StreamSessionManager_start_session read_json cfg now user_id auth_method m fs =
     (case ssm_sessions m user_id of
        Some session \<Rightarrow> (Inr session, m, fs)
      | None \<Rightarrow>
          (case resolve_auth_method read_json cfg user_id auth_method fs of
             Inl e \<Rightarrow> (Inl e, m, fs)
           | Inr auth \<Rightarrow>
               if auth = NONE then (Inl auth_error, m, fs)
               else case create_stream_session cfg now user_id auth fs of
                      Inl e \<Rightarrow> (Inl e, m, fs)
                    | Inr (stream, fs') \<Rightarrow>
                        (let session = \<lparr>uss_user_id = user_id, uss_stream = stream,
                                         uss_formatter = StreamOutputFormatter_init,
                                         uss_created_at = now, uss_current_task = None\<rparr>
                         in (Inr session,
                             m\<lparr>ssm_sessions := (ssm_sessions m)(user_id \<mapsto> session)\<rparr>, fs'))))"

definition StreamSessionManager_stop_session ::
  "grace \<Rightarrow> string \<Rightarrow> 'c StreamSessionManager \<Rightarrow> proc_table
     \<Rightarrow> (error + unit) \<times> 'c StreamSessionManager \<times> proc_table" where
  "StreamSessionManager_stop_session g user_id m pt =
     (case ssm_sessions m user_id of
        None \<Rightarrow>
          (Inr (), m\<lparr>ssm_output_callbacks := (ssm_output_callbacks m)(user_id := None)\<rparr>, pt)
      | Some session \<Rightarrow>
          (let m1 = m\<lparr>ssm_sessions := (ssm_sessions m)(user_id := None)\<rparr>
           in case cancel g (uss_stream session) pt of
                (Inl e, _, pt1) \<Rightarrow> (Inl e, m1, pt1)
              | (Inr _, _, pt1) \<Rightarrow>
                  (Inr (),
                   m1\<lparr>ssm_output_callbacks := (ssm_output_callbacks m1)(user_id := None)\<rparr>,
                   pt1)))"

section \<open>Sandbox and PTY transport (sandbox_runner.py, pty_handler.py)\<close>

definition rmtree :: "path \<Rightarrow> filesystem \<Rightarrow> error + filesystem" where
  \<comment> \<open>\<open>shutil.rmtree(p)\<close>: a directory goes with all that lies below it. On a regular
      file it raises \<open>NotADirectoryError\<close>, on a symbolic link \<open>OSError\<close>, and where there
      is nothing \<open>FileNotFoundError\<close>, an \<open>OSError\<close>; the file system is then as it was.\<close>
  "rmtree p fs =
     (case fs p of
        Some Dir \<Rightarrow> Inr (\<lambda>q. if prefix p q then None else fs q)
      | Some (File _) \<Rightarrow> Inl NotADirectoryError
      | Some (Symlink _) \<Rightarrow> Inl OSError
      | None \<Rightarrow> Inl OSError)"

definition cleanup_sandbox :: "config \<Rightarrow> string \<Rightarrow> bool \<Rightarrow> filesystem \<Rightarrow> error + filesystem"
  where
  "cleanup_sandbox cfg user_id remove_workspace fs =
     (let workspace = get_user_workspace cfg user_id
      in if remove_workspace \<and> path_exists fs workspace then rmtree workspace fs
         else if path_exists fs workspace then
           (let tmp_dir = workspace @ [''tmp'']
            in if path_exists fs tmp_dir then rmtree tmp_dir fs else Inr fs)
         else Inr fs)"

text \<open>
  \<open>setup_sandbox\<close> as sandbox_runner.py defines it, with the user id as its only
  parameter. The command line composed by \<open>get_bwrap_command\<close> depends on the node and npm
  installation of the host; it is the parameter \<open>bwrap\<close>.
\<close>

definition setup_sandbox ::
  "(string \<Rightarrow> path \<Rightarrow> string list) \<Rightarrow> config \<Rightarrow> string \<Rightarrow> filesystem
     \<Rightarrow> (error + path \<times> string list) \<times> filesystem" where
  "setup_sandbox bwrap cfg user_id fs =
     (case ensure_workspace cfg user_id fs of
        Inl e \<Rightarrow> (Inl e, fs)
      | Inr (workspace, fs1) \<Rightarrow>
          (let claude_dir = workspace @ [''.claude'']
           in if in_the_way fs1 claude_dir then (Inl OSError, fs1)
              else (Inr (workspace, bwrap user_id workspace),
                    (if fs1 claude_dir = None then fs1(claude_dir \<mapsto> Dir) else fs1))))"

text \<open>
  The call \<open>setup_sandbox(user_id, auth_method)\<close> in \<open>SessionManager.start_session\<close>. It
  passes two positional arguments to a function that has one parameter. Python raises
  \<open>TypeError\<close> when it binds the arguments, before the body of the function runs: the
  call returns no workspace and no command line, and it leaves the file system as it is.
\<close>

definition setup_sandbox_call ::
  "string \<Rightarrow> AuthMethod \<Rightarrow> filesystem \<Rightarrow> (error + path \<times> string list) \<times> filesystem" where
  "setup_sandbox_call user_id auth_method fs = (Inl TypeError, fs)"

record PTYSession =
  pty_user_id :: string
  pty_master_fd :: int
  pty_slave_fd :: int
  pty_process :: "nat option"
  pty_created_at :: nat
  pty_last_activity :: nat
  pty_read_buffer :: bytes

text \<open>
  What the PTY variant acts on: the child processes, the open file descriptors, the
  running asyncio tasks and the file system.
\<close>

record world =
  w_pt :: proc_table
  w_open_fds :: "int set"
  w_tasks :: "nat set"
  w_fs :: filesystem

definition PTYSession_is_alive :: "PTYSession \<Rightarrow> proc_table \<Rightarrow> bool" where
  "PTYSession_is_alive p pt =
     (case pty_process p of None \<Rightarrow> False | Some pid \<Rightarrow> pt_returncode pt pid = None)"

text \<open>
  \<open>PTYSession.start\<close>: \<open>fds\<close> are the descriptors that \<open>openpty\<close> hands out, \<open>launch\<close> tells
  whether \<open>openpty\<close> and \<open>Popen\<close> succeed. What a failed start leaves behind (descriptors
  opened before \<open>Popen\<close> raised) is not tracked.
\<close>

definition PTYSession_start ::
  "nat \<Rightarrow> int \<times> int \<Rightarrow> error option \<Rightarrow> string list \<Rightarrow> PTYSession \<Rightarrow> world
     \<Rightarrow> error + PTYSession \<times> world" where
  "PTYSession_start now fds launch command p w =
     (case launch of
        Some e \<Rightarrow> Inl e
      | None \<Rightarrow>
          (let pid = fst (spawn (pty_user_id p) command (w_pt w));
               pt1 = snd (spawn (pty_user_id p) command (w_pt w))
           in Inr (p\<lparr>pty_master_fd := fst fds, pty_slave_fd := - 1, pty_process := Some pid,
                     pty_last_activity := now\<rparr>,
                   w\<lparr>w_pt := pt1, w_open_fds := insert (fst fds) (w_open_fds w)\<rparr>)))"

definition create_pty_session ::
  "nat \<Rightarrow> int \<times> int \<Rightarrow> error option \<Rightarrow> string \<Rightarrow> string list \<Rightarrow> world
     \<Rightarrow> error + PTYSession \<times> world" where
  "create_pty_session now fds launch user_id command w =
     PTYSession_start now fds launch command
       \<lparr>pty_user_id = user_id, pty_master_fd = - 1, pty_slave_fd = - 1, pty_process = None,
        pty_created_at = now, pty_last_activity = now, pty_read_buffer = []\<rparr> w"

text \<open>
  \<open>PTYSession.terminate\<close>: \<open>exited\<close> is the return code of the child if it ends within
  the five seconds after it was asked to terminate, and \<open>None\<close> if the wait times out.
\<close>

definition PTYSession_terminate :: "int option \<Rightarrow> PTYSession \<Rightarrow> world \<Rightarrow> PTYSession \<times> world"
  where
  "PTYSession_terminate exited p w =
     (let pt1 =
            (case pty_process p of
               None \<Rightarrow> w_pt w
             | Some pid \<Rightarrow>
                 if pt_returncode (w_pt w) pid = None then
                   (let pt0 = send_signal pid SIGTERM (w_pt w)
                    in case exited of
                         Some rc \<Rightarrow> pt0\<lparr>pt_returncode := (pt_returncode pt0)(pid := Some rc)\<rparr>
                       | None \<Rightarrow> send_signal pid SIGKILL pt0)
                 else w_pt w)
      in if pty_master_fd p \<ge> 0
         then (p\<lparr>pty_master_fd := - 1\<rparr>,
               w\<lparr>w_pt := pt1, w_open_fds := w_open_fds w - {pty_master_fd p}\<rparr>)
         else (p, w\<lparr>w_pt := pt1\<rparr>))"

section \<open>Session manager, PTY variant (session_manager.py)\<close>

record 'e UserSession =
  us_user_id :: string
  us_pty :: PTYSession
  us_workspace :: path
  us_output_buffer :: "'e OutputBuffer"
  us_created_at :: nat
  us_claude_session_id :: "string option"
  us_output_task :: "nat option"
  us_output_callback :: "nat option"

record 'e SessionManager =
  sm_sessions :: "string \<rightharpoonup> 'e UserSession"
  sm_output_callbacks :: "string \<rightharpoonup> nat"
  sm_cleanup_task :: "nat option"

text \<open>
  \<open>stop_session\<close>. An exception of \<open>cleanup_sandbox\<close> leaves the method at once: the
  session is out of the table and its transport is released by then, but the output
  callback of the user is still registered.
\<close>

definition stop_session ::
  "config \<Rightarrow> int option \<Rightarrow> string \<Rightarrow> 'e SessionManager \<Rightarrow> world
     \<Rightarrow> (error + unit) \<times> 'e SessionManager \<times> world"
  where
  "stop_session cfg exited user_id m w =
     (case sm_sessions m user_id of
        None \<Rightarrow>
          (Inr (), m\<lparr>sm_output_callbacks := (sm_output_callbacks m)(user_id := None)\<rparr>, w)
      | Some session \<Rightarrow>
          (let m1 = m\<lparr>sm_sessions := (sm_sessions m)(user_id := None)\<rparr>;
               w1 = (case us_output_task session of
                       None \<Rightarrow> w
                     | Some t \<Rightarrow> w\<lparr>w_tasks := w_tasks w - {t}\<rparr>);
               w2 = snd (PTYSession_terminate exited (us_pty session) w1)
           in case cleanup_sandbox cfg user_id False (w_fs w2) of
                Inl e \<Rightarrow> (Inl e, m1, w2)
              | Inr fs' \<Rightarrow>
                  (Inr (),
                   m1\<lparr>sm_output_callbacks := (sm_output_callbacks m1)(user_id := None)\<rparr>,
                   w2\<lparr>w_fs := fs'\<rparr>)))"

text \<open>
  What \<open>start_session\<close> takes from its environment: the clock; how the wait for the
  prior session's child goes; the descriptors and the outcome of the start of the PTY;
  the new task; and a new pyte screen.
\<close>

record 'e start_env =
  se_now :: nat
  se_exited :: "int option"
  se_fds :: "int \<times> int"
  se_launch :: "error option"
  se_task :: nat
  se_screen :: 'e

definition OutputBuffer_init :: "'e \<Rightarrow> 'e OutputBuffer" where
  "OutputBuffer_init screen =
     \<lparr>ob_buffer = [], ob_emulator = screen, ob_last_content = [], ob_last_statusbar = None\<rparr>"

text \<open>
  \<open>start_session\<close> in two parts: \<open>start_session_fresh\<close> is the method from the resolution
  of the authentication method on, and \<open>start_session\<close> puts the stop of a prior session
  before it. An exception of \<open>stop_session\<close> or of \<open>get_auth_method\<close> leaves
  \<open>start_session\<close> with the state reached by then.
\<close>

definition start_session_fresh ::
  "(bytes \<Rightarrow> error + 'c json) \<Rightarrow> config \<Rightarrow> 'e start_env \<Rightarrow> string \<Rightarrow> string option
     \<Rightarrow> AuthMethod option \<Rightarrow> 'e SessionManager \<Rightarrow> world
     \<Rightarrow> (error + 'e UserSession) \<times> 'e SessionManager \<times> world"
  where
  "start_session_fresh read_json cfg env user_id resume_session_id auth_method m1 w1 =
     (case resolve_auth_method read_json cfg user_id auth_method (w_fs w1) of
        Inl e \<Rightarrow> (Inl e, m1, w1)
      | Inr auth \<Rightarrow>
          if auth = NONE then (Inl auth_error, m1, w1)
          else case setup_sandbox_call user_id auth (w_fs w1) of
                 (Inl e, fs') \<Rightarrow> (Inl e, m1, w1\<lparr>w_fs := fs'\<rparr>)
               | (Inr (workspace, bwrap_cmd), fs') \<Rightarrow>
                   (let cmd = bwrap_cmd @ (if truthy resume_session_id
                                           then [''--resume'', the resume_session_id] else [])
                    in case create_pty_session (se_now env) (se_fds env) (se_launch env)
                              user_id cmd (w1\<lparr>w_fs := fs'\<rparr>) of
                         Inl e \<Rightarrow> (Inl e, m1, w1\<lparr>w_fs := fs'\<rparr>)
                       | Inr (pty_session, w2) \<Rightarrow>
                           (let session =
                                  \<lparr>us_user_id = user_id, us_pty = pty_session,
                                   us_workspace = workspace,
                                   us_output_buffer = OutputBuffer_init (se_screen env),
                                   us_created_at = se_now env,
                                   us_claude_session_id = resume_session_id,
                                   us_output_task = Some (se_task env),
                                   us_output_callback = None\<rparr>
                            in (Inr session,
                                m1\<lparr>sm_sessions := (sm_sessions m1)(user_id \<mapsto> session)\<rparr>,
                                w2\<lparr>w_tasks := insert (se_task env) (w_tasks w2)\<rparr>))))"

definition start_session ::
  "(bytes \<Rightarrow> error + 'c json) \<Rightarrow> config \<Rightarrow> 'e start_env \<Rightarrow> string \<Rightarrow> string option
     \<Rightarrow> AuthMethod option \<Rightarrow> 'e SessionManager \<Rightarrow> world
     \<Rightarrow> (error + 'e UserSession) \<times> 'e SessionManager \<times> world"
  where
  "start_session read_json cfg env user_id resume_session_id auth_method m w =
     (if user_id \<in> dom (sm_sessions m)
      then case stop_session cfg (se_exited env) user_id m w of
             (Inl e, m1, w1) \<Rightarrow> (Inl e, m1, w1)
           | (Inr _, m1, w1) \<Rightarrow>
               start_session_fresh read_json cfg env user_id resume_session_id auth_method
                 m1 w1
      else start_session_fresh read_json cfg env user_id resume_session_id auth_method m w)"

text \<open>
  The state that the PTY variant keeps between its calls: no process beyond those
  created has a return code; the process of every session in the table has been
  created; and every live transport of a user is the process of the session that the
  table holds for this user.
\<close>

definition manager_inv :: "'e SessionManager \<Rightarrow> proc_table \<Rightarrow> bool" where
  "manager_inv m pt \<longleftrightarrow>
     (\<forall>p \<ge> length (pt_procs pt). pt_returncode pt p = None) \<and>
     (\<forall>u s p. sm_sessions m u = Some s \<and> pty_process (us_pty s) = Some p
         \<longrightarrow> p < length (pt_procs pt)) \<and>
     (\<forall>u p. p \<in> live_transports pt u
         \<longrightarrow> (\<exists>s. sm_sessions m u = Some s \<and> pty_process (us_pty s) = Some p))"

section \<open>An example state\<close>

text \<open>
  The user 42 with a running PTY session: child process 0, master descriptor 5, output
  task 3, and a workspace that holds a source file and a \<open>tmp\<close> directory with a file.
\<close>

definition example_config :: config where
  "example_config = \<lparr>ANTHROPIC_API_KEY = Some ''key'', WORKSPACE_BASE = [''ws'']\<rparr>"

definition example_session :: "unit UserSession" where
  "example_session =
     \<lparr>us_user_id = ''42'',
      us_pty = \<lparr>pty_user_id = ''42'', pty_master_fd = 5, pty_slave_fd = - 1,
                pty_process = Some 0, pty_created_at = 1, pty_last_activity = 1,
                pty_read_buffer = []\<rparr>,
      us_workspace = [''ws'', ''42''], us_output_buffer = OutputBuffer_init (),
      us_created_at = 1, us_claude_session_id = None, us_output_task = Some 3,
      us_output_callback = None\<rparr>"

definition example_manager :: "unit SessionManager" where
  "example_manager =
     \<lparr>sm_sessions = [''42'' \<mapsto> example_session], sm_output_callbacks = [''42'' \<mapsto> 7],
      sm_cleanup_task = None\<rparr>"

definition example_world :: world where
  "example_world =
     \<lparr>w_pt = \<lparr>pt_procs = [(''42'', [''bwrap''])], pt_returncode = (\<lambda>p. None), pt_signals = []\<rparr>,
      w_open_fds = {5}, w_tasks = {3},
      w_fs = [[''ws''] \<mapsto> Dir, [''ws'', ''42''] \<mapsto> Dir,
              [''ws'', ''42'', ''main.py''] \<mapsto> File ''print(1)'',
              [''ws'', ''42'', ''tmp''] \<mapsto> Dir,
              [''ws'', ''42'', ''tmp'', ''junk''] \<mapsto> File ''x'']\<rparr>"

definition example_env :: "unit start_env" where
  "example_env =
     \<lparr>se_now = 9, se_exited = None, se_fds = (6, 7), se_launch = None, se_task = 4,
      se_screen = ()\<rparr>"

definition example_read_json :: "bytes \<Rightarrow> error + int json" where
  \<comment> \<open>\<open>json.load\<close> on the texts that the example files hold: \<open>123\<close> is a number, and
      \<open>print(1)\<close> and \<open>x\<close> are not JSON.\<close>
  "example_read_json text = (if text = ''123'' then Inr (JInt 123) else Inl JSONDecodeError)"


definition example_stream_manager :: "int StreamSessionManager" where
  \<comment> \<open>The user 42 with a streaming session created at the time 1.\<close>
  "example_stream_manager =
     \<lparr>ssm_sessions =
        [''42'' \<mapsto> \<lparr>uss_user_id = ''42'',
                      uss_stream = StreamSession_new ''42'' [''ws'', ''42''] API_KEY 1,
                      uss_formatter = StreamOutputFormatter_init,
                      uss_created_at = 1, uss_current_task = None\<rparr>],
      ssm_output_callbacks = Map.empty, ssm_cleanup_task = None\<rparr>"

section \<open>Properties\<close>

subsection \<open>Strings\<close>

lemma isspace_lower_char: "isspace (lower_char c) = isspace c"
proof (cases "map_of (zip upper_chars lower_chars) c")
  case None
  then show ?thesis by (simp add: lower_char_def)
next
  case (Some d)
  then have "(c, d) \<in> set (zip upper_chars lower_chars)"
    by (rule map_of_SomeD)
  then have "c \<in> set upper_chars" and "d \<in> set lower_chars"
    by (auto dest: set_zip_leftD set_zip_rightD)
  then have "\<not> isspace c" and "\<not> isspace d"
    by (auto simp: upper_chars_def lower_chars_def isspace_def)
  with Some show ?thesis by (simp add: lower_char_def)
qed

lemma lower_dropWhile: "lower (dropWhile isspace s) = dropWhile isspace (lower s)"
  by (induction s) (simp_all add: lower_def isspace_lower_char)

lemma lower_strip: "lower (strip s) = strip (lower s)"
proof -
  have "lower (rev s) = rev (lower s)" for s
    by (simp add: lower_def rev_map)
  then show ?thesis
    by (simp add: strip_def lstrip_def rstrip_def lower_dropWhile)
qed

lemma sublist_dropWhile_iff:
  assumes "k \<noteq> []" and "\<forall>c \<in> set k. \<not> P c"
  shows "sublist k (dropWhile P s) \<longleftrightarrow> sublist k s"
proof (induction s)
  case Nil
  show ?case by simp
next
  case (Cons a s)
  show ?case
  proof (cases "P a")
    case True
    from assms obtain b k' where k: "k = b # k'" and "\<not> P b"
      by (cases k) auto
    with True have "\<not> prefix k (a # s)" by auto
    with True Cons show ?thesis by (simp add: sublist_Cons_right)
  next
    case False
    then show ?thesis by simp
  qed
qed

lemma sublist_strip:
  assumes "k \<noteq> []" and "\<forall>c \<in> set k. \<not> isspace c"
  shows "sublist k (strip s) \<longleftrightarrow> sublist k s"
proof -
  have r: "rev k \<noteq> []" "\<forall>c \<in> set (rev k). \<not> isspace c"
    using assms by auto
  have "sublist k (strip s) \<longleftrightarrow> sublist k (rstrip s)"
    unfolding strip_def lstrip_def by (rule sublist_dropWhile_iff [OF assms])
  also have "\<dots> \<longleftrightarrow> sublist (rev k) (dropWhile isspace (rev s))"
    unfolding rstrip_def by (metis sublist_rev rev_rev_ident)
  also have "\<dots> \<longleftrightarrow> sublist (rev k) (rev s)"
    by (rule sublist_dropWhile_iff [OF r])
  also have "\<dots> \<longleftrightarrow> sublist k s"
    by (rule sublist_rev)
  finally show ?thesis .
qed

lemma keywords_plain:
  "k \<in> set statusbar_keywords \<Longrightarrow> k \<noteq> [] \<and> (\<forall>c \<in> set k. \<not> isspace c)"
  by (auto simp: statusbar_keywords_def isspace_def)

lemma keyword_in_stripped:
  "k \<in> set statusbar_keywords \<Longrightarrow>
     contains k (lower (strip row)) \<longleftrightarrow> contains k (lower row)"
  using keywords_plain [of k] by (simp add: contains_def lower_strip sublist_strip)

subsection \<open>Status line\<close>

text \<open>
  C8. \<open>get_statusbar\<close> answers with a status line exactly when the last rendered row
  contains one of the eight keywords (the comparison is made on the lower-cased row, so
  it ignores case); the answer is then that row with the white space at both ends
  removed. Without a keyword, and on an empty display, the answer is \<open>None\<close>. No row
  before the last one has any influence.
\<close>

theorem get_statusbar_last_row:
  "get_statusbar [] = None \<and>
   get_statusbar (rows @ [row]) =
     (if \<exists>k \<in> set statusbar_keywords. contains k (lower row)
      then Some (strip row) else None)"
proof -
  have "list_ex (\<lambda>x. contains x (lower (strip row))) statusbar_keywords
          \<longleftrightarrow> (\<exists>k \<in> set statusbar_keywords. contains k (lower row))"
    by (auto simp: list_ex_iff keyword_in_stripped)
  then show ?thesis
    by (simp add: get_statusbar_def)
qed

theorem get_statusbar_last_row_witness:
  "get_statusbar [''$ make'', ''  opus | 12 tokens ''] = Some ''opus | 12 tokens'' \<and>
   get_statusbar [''12 tokens'', ''done''] = None"
proof -
  have a: "strip ''  opus | 12 tokens '' = ''opus | 12 tokens''"
    by (simp add: strip_def lstrip_def rstrip_def isspace_def)
  have b: "\<exists>k \<in> set statusbar_keywords. contains k (lower ''  opus | 12 tokens '')"
    by (simp add: statusbar_keywords_def contains_def lower_def lower_char_def
        upper_chars_def lower_chars_def sublist_Cons_right)
  have c: "\<not> (\<exists>k \<in> set statusbar_keywords. contains k (lower ''done''))"
    by (simp add: statusbar_keywords_def contains_def lower_def lower_char_def
        upper_chars_def lower_chars_def sublist_Cons_right)
  show ?thesis
    using get_statusbar_last_row [of "[''$ make'']" "''  opus | 12 tokens ''"]
      get_statusbar_last_row [of "[''12 tokens'']" "''done''"] a b c
    by (simp add: strip_def lstrip_def rstrip_def isspace_def)
qed

subsection \<open>Incremental output\<close>

lemma strip_Nil: "strip [] = []"
  by (simp add: strip_def lstrip_def rstrip_def)

lemma strip_plain: "strip ''\<newline>bar'' = ''bar''"
  by (simp add: strip_def lstrip_def rstrip_def isspace_def)

text \<open>
  C4, as the claim states it, fails: the delta that \<open>feed\<close> emits is not the appended
  suffix itself. With \<open>foo\<close> emitted before and a screen that now shows the rows \<open>foo\<close>
  and \<open>bar\<close>, the content grows by a line break and \<open>bar\<close>, and \<open>feed\<close> emits \<open>bar\<close>.
\<close>

theorem OutputBuffer_feed_suffix_counterexample:
  "ob_last_content (snd (OutputBuffer_feed row_printer_feed row_printer_display ''bar''
       \<lparr>ob_buffer = ''foo'', ob_emulator = [''foo''], ob_last_content = ''foo'',
        ob_last_statusbar = None\<rparr>)) = ''foo'' @ ''\<newline>bar'' \<and>
   po_content (fst (OutputBuffer_feed row_printer_feed row_printer_display ''bar''
       \<lparr>ob_buffer = ''foo'', ob_emulator = [''foo''], ob_last_content = ''foo'',
        ob_last_statusbar = None\<rparr>)) = ''bar'' \<and>
   po_content (fst (OutputBuffer_feed row_printer_feed row_printer_display ''bar''
       \<lparr>ob_buffer = ''foo'', ob_emulator = [''foo''], ob_last_content = ''foo'',
        ob_last_statusbar = None\<rparr>)) \<noteq> ''\<newline>bar''"
  by (simp add: OutputBuffer_feed_def row_printer_feed_def row_printer_display_def
      get_content_def Let_def rstrip_def isspace_def strip_plain)

text \<open>
  C4, amended. Let \<open>cur\<close> be the content of the screen after the bytes are fed and \<open>old\<close>
  the content remembered from the feed before. If \<open>cur\<close> is \<open>old\<close> followed by a suffix,
  the emitted delta is that suffix with the white space at both of its ends removed; if
  \<open>old\<close> is not a prefix of \<open>cur\<close>, the delta is \<open>cur\<close> with the white space at both ends
  removed; if \<open>cur\<close> equals \<open>old\<close>, the delta is empty. In each case \<open>cur\<close> is remembered
  for the next feed.
\<close>

theorem OutputBuffer_feed_delta:
  assumes "cur = get_content (emu_display (emu_feed data (ob_emulator b)))"
    and "old = ob_last_content b"
  shows "(\<forall>suffix. cur = old @ suffix \<longrightarrow>
            po_content (fst (OutputBuffer_feed emu_feed emu_display data b)) = strip suffix) \<and>
         (\<not> prefix old cur \<longrightarrow>
            po_content (fst (OutputBuffer_feed emu_feed emu_display data b)) = strip cur) \<and>
         (cur = old \<longrightarrow>
            po_content (fst (OutputBuffer_feed emu_feed emu_display data b)) = []) \<and>
         ob_last_content (snd (OutputBuffer_feed emu_feed emu_display data b)) = cur"
  using assms
  by (auto simp: OutputBuffer_feed_def Let_def strip_def lstrip_def rstrip_def)

theorem OutputBuffer_feed_delta_witness:
  "po_content (fst (OutputBuffer_feed row_printer_feed row_printer_display ''bar''
       \<lparr>ob_buffer = ''foo'', ob_emulator = [''foo''], ob_last_content = ''foo'',
        ob_last_statusbar = None\<rparr>)) = strip ''\<newline>bar'' \<and>
   po_content (fst (OutputBuffer_feed row_printer_feed row_printer_display ''bar''
       \<lparr>ob_buffer = ''foo'', ob_emulator = [''foo''], ob_last_content = ''xyz'',
        ob_last_statusbar = None\<rparr>)) = strip ''foo\<newline>bar'' \<and>
   po_content (fst (OutputBuffer_feed row_printer_feed row_printer_display ''''
       \<lparr>ob_buffer = ''foo'', ob_emulator = [''foo''], ob_last_content = ''foo'',
        ob_last_statusbar = None\<rparr>)) = []"
proof -
  have c1: "get_content (row_printer_display (row_printer_feed ''bar'' [''foo'']))
      = ''foo'' @ ''\<newline>bar''"
    by (simp add: row_printer_feed_def row_printer_display_def get_content_def Let_def
        rstrip_def isspace_def)
  have c2: "get_content (row_printer_display (row_printer_feed '''' [''foo''])) = ''foo''"
    by (simp add: row_printer_feed_def row_printer_display_def get_content_def Let_def
        rstrip_def isspace_def)
  have n: "\<not> prefix ''xyz'' (''foo'' @ ''\<newline>bar'')"
    by simp
  show ?thesis
    using OutputBuffer_feed_delta [of "''foo'' @ ''\<newline>bar''" row_printer_display
        row_printer_feed "''bar''"
        "\<lparr>ob_buffer = ''foo'', ob_emulator = [''foo''], ob_last_content = ''foo'',
          ob_last_statusbar = None\<rparr>" "''foo''"]
      OutputBuffer_feed_delta [of "''foo'' @ ''\<newline>bar''" row_printer_display
        row_printer_feed "''bar''"
        "\<lparr>ob_buffer = ''foo'', ob_emulator = [''foo''], ob_last_content = ''xyz'',
          ob_last_statusbar = None\<rparr>" "''xyz''"]
      OutputBuffer_feed_delta [of "''foo''" row_printer_display
        row_printer_feed "''''"
        "\<lparr>ob_buffer = ''foo'', ob_emulator = [''foo''], ob_last_content = ''foo'',
          ob_last_statusbar = None\<rparr>" "''foo''"]
      c1 c2 n
    by (simp add: strip_Nil)
qed

subsection \<open>Chunking\<close>

lemma rfind_lower: "- 1 \<le> rfind sub s"
  by (induction s) (simp_all add: rfind_at_def)

lemma rfind_upper: "0 \<le> rfind sub s \<Longrightarrow> rfind sub s + int (length sub) \<le> int (length s)"
proof (induction s)
  case Nil
  then show ?case by (simp split: if_splits)
next
  case (Cons c cs)
  have "prefix sub (c # cs) \<Longrightarrow> int (length sub) \<le> 1 + int (length cs)"
    using prefix_length_le [of sub "c # cs"] by simp
  with Cons show ?case
    by (auto simp: rfind_at_def split: if_splits)
qed

lemma split_point_bounds:
  assumes "6 \<le> limit" and "int (length chunk) = limit"
  shows "5 \<le> split_point chunk limit \<and> split_point chunk limit \<le> limit"
proof -
  have u: "0 \<le> rfind sub chunk \<Longrightarrow> rfind sub chunk + int (length sub) \<le> limit" for sub
    using rfind_upper [of sub chunk] assms(2) by simp
  have h: "3 \<le> limit div 2" using assms(1) by simp
  show ?thesis
    using u [of "''```\<newline>''"] u [of "''\<newline>\<newline>''"] u [of "''\<newline>''"] u [of "'' ''"] h assms(1)
    by (simp add: split_point_def Let_def)
qed

lemma count_fence_sep_Nil: "c \<noteq> CHR ''`'' \<Longrightarrow> count_fence (c # w) = count_fence w"
  by (cases w rule: count_fence.cases) auto

lemma count_fence_sep:
  "c \<noteq> CHR ''`'' \<Longrightarrow> count_fence (x @ c # w) = count_fence x + count_fence w"
proof (induction x rule: count_fence.induct)
  case (1 a b d s)
  then show ?case by simp
qed (cases w; simp add: count_fence_sep_Nil)+

lemma count_fence_spaces: "list_all isspace w \<Longrightarrow> count_fence (x @ w) = count_fence x"
proof (cases w)
  case Nil
  then show ?thesis by simp
next
  case (Cons c w')
  assume "list_all isspace w"
  with Cons have c: "c \<noteq> CHR ''`''" and w': "list_all isspace w'"
    by (auto simp: isspace_def)
  have "count_fence w' = 0"
    using w' by (induction w' rule: count_fence.induct) (auto simp: isspace_def)
  with c Cons show ?thesis by (simp add: count_fence_sep)
qed

lemma rstrip_decomp: "\<exists>w. s = rstrip s @ w \<and> list_all isspace w"
proof -
  have "rev s = takeWhile isspace (rev s) @ dropWhile isspace (rev s)" by simp
  then have "s = rev (dropWhile isspace (rev s)) @ rev (takeWhile isspace (rev s))"
    by (metis rev_append rev_rev_ident)
  moreover have "list_all isspace (rev (takeWhile isspace (rev s)))"
    by (simp add: list_all_iff) (metis set_takeWhileD)
  ultimately show ?thesis unfolding rstrip_def by blast
qed

lemma count_fence_rstrip: "count_fence (rstrip s) = count_fence s"
  using rstrip_decomp [of s] count_fence_spaces by metis

lemma count_fence_closed: "count_fence (rstrip s @ ''\<newline>```'') = Suc (count_fence s)"
proof -
  have "count_fence (rstrip s @ CHR ''\<newline>'' # ''```'') = count_fence (rstrip s) + count_fence ''```''"
    by (rule count_fence_sep) simp
  then show ?thesis by (simp add: count_fence_rstrip)
qed


lemma chunk_loop_total:
  assumes lim: "6 \<le> limit"
  shows "\<exists>ps. chunk_loop limit acc (opener opened @ t) = Some (acc @ ps) \<and>
           reassembles limit opened ps t \<and>
           (\<forall>p \<in> set (butlast ps). even (count_fence p))"
proof (induction "length t" arbitrary: t acc opened rule: less_induct)
  case less
  define rem where "rem = opener opened @ t"
  show ?case
  proof (cases "int (length rem) \<le> limit")
    case True
    show ?thesis
    proof (cases "rem = []")
      case True
      then have "opened = False" "t = []" by (auto simp: rem_def opener_def split: if_splits)
      then show ?thesis
        by (subst chunk_loop.simps) (auto simp: opener_def intro: ra_done)
    next
      case False
      have "reassembles limit opened [opener opened @ t] (t @ [])"
        using True by (intro ra_plain ra_done) (simp add: rem_def)
      with False True show ?thesis
        by (subst chunk_loop.simps) (auto simp: rem_def)
    qed
  next
    case False
    define sp where "sp = split_point (py_take limit rem) limit"
    define n where "n = nat sp - length (opener opened)"
    have len: "int (length (py_take limit rem)) = limit"
      using False lim by (simp add: py_take_def)
    have sp: "5 \<le> sp" "sp \<le> limit"
      using split_point_bounds [OF lim len] by (simp_all add: sp_def)
    have op: "length (opener opened) \<le> 4"
      by (simp add: opener_def)
    have n: "0 < n" "nat sp = length (opener opened) + n"
      using sp op by (simp_all add: n_def)
    have tk: "py_take sp rem = opener opened @ take n t"
      using sp n by (simp add: py_take_def rem_def)
    have dr: "py_drop sp rem = drop n t"
      using sp n by (simp add: py_drop_def rem_def)
    have tne: "t \<noteq> []"
      using False lim op by (auto simp: rem_def)
    have shorter: "length (drop n t) < length t"
      using n tne by simp
    have t: "t = take n t @ drop n t" by simp
    have remne: "rem \<noteq> []" using False lim by auto
    show ?thesis
    proof (cases "count_fence (py_take sp rem) mod 2 = 1")
      case True
      define piece where "piece = rstrip (opener opened @ take n t) @ ''\<newline>```''"
      obtain ps where ps: "chunk_loop limit (acc @ [piece]) (opener True @ drop n t)
            = Some ((acc @ [piece]) @ ps)"
          "reassembles limit True ps (drop n t)"
          "\<forall>p \<in> set (butlast ps). even (count_fence p)"
        using less [OF shorter, of "acc @ [piece]" True] by blast
      have "even (count_fence piece)"
        using True by (simp add: piece_def tk count_fence_closed) presburger
      with ps(3) have bal: "\<forall>p \<in> set (butlast (piece # ps)). even (count_fence p)"
        by (auto dest: in_set_butlastD)
      have "reassembles limit opened (piece # ps) (take n t @ drop n t)"
        unfolding piece_def by (rule ra_repaired [OF ps(2)])
      then have ra: "reassembles limit opened (piece # ps) t" by simp
      have "chunk_loop limit acc rem = Some (acc @ piece # ps)"
        using False remne True ps(1)
        by (subst chunk_loop.simps)
          (simp add: Let_def sp_def [symmetric] tk dr piece_def opener_def)
      with ra bal show ?thesis unfolding rem_def by blast
    next
      case odd: False
      define piece where "piece = opener opened @ take n t"
      obtain ps where ps: "chunk_loop limit (acc @ [piece]) (opener False @ drop n t)
            = Some ((acc @ [piece]) @ ps)"
          "reassembles limit False ps (drop n t)"
          "\<forall>p \<in> set (butlast ps). even (count_fence p)"
        using less [OF shorter, of "acc @ [piece]" False] by blast
      have "even (count_fence piece)"
        using odd by (simp add: piece_def tk) presburger
      with ps(3) have bal: "\<forall>p \<in> set (butlast (piece # ps)). even (count_fence p)"
        by (auto dest: in_set_butlastD)
      have "int (length (opener opened @ take n t)) \<le> limit"
        using sp n by simp
      then have "reassembles limit opened (piece # ps) (take n t @ drop n t)"
        unfolding piece_def by (rule ra_plain [OF ps(2)])
      then have ra: "reassembles limit opened (piece # ps) t" by simp
      have "chunk_loop limit acc rem = Some (acc @ piece # ps)"
        using False remne odd ps(1)
        by (subst chunk_loop.simps)
          (simp add: Let_def sp_def [symmetric] tk dr piece_def opener_def)
      with ra bal show ?thesis unfolding rem_def by blast
    qed
  qed
qed


lemma split_point_positive:
  assumes "1 \<le> limit" and "int (length chunk) = limit"
  shows "1 \<le> split_point chunk limit \<and> split_point chunk limit \<le> limit"
proof -
  have u: "0 \<le> rfind sub chunk \<Longrightarrow> rfind sub chunk + int (length sub) \<le> limit" for sub
    using rfind_upper [of sub chunk] assms(2) by simp
  have h: "0 \<le> limit div 2" using assms(1) by simp
  show ?thesis
    using u [of "''```\<newline>''"] u [of "''\<newline>\<newline>''"] u [of "''\<newline>''"] u [of "'' ''"] h assms(1)
    by (auto simp: split_point_def Let_def)
qed

lemma count_fence_none: "\<not> sublist ''```'' u \<Longrightarrow> count_fence u = 0"
proof (induction u rule: count_fence.induct)
  case (1 a b c s)
  have "\<not> sublist ''```'' (b # c # s)"
    using 1(3) by (simp add: sublist_Cons_right)
  moreover have "\<not> (a = CHR ''`'' \<and> b = CHR ''`'' \<and> c = CHR ''`'')"
    using 1(3) by (auto simp: sublist_Cons_right)
  ultimately show ?case using 1(2) by simp
qed simp_all

lemma chunk_loop_plain:
  assumes lim: "1 \<le> limit"
  shows "\<not> sublist ''```'' t \<Longrightarrow>
     \<exists>ps. chunk_loop limit acc t = Some (acc @ ps) \<and> concat ps = t \<and>
       (\<forall>p \<in> set ps. int (length p) \<le> limit)"
proof (induction "length t" arbitrary: t acc rule: less_induct)
  case less
  show ?case
  proof (cases "int (length t) \<le> limit")
    case True
    then show ?thesis
      by (subst chunk_loop.simps) auto
  next
    case False
    define sp where "sp = split_point (py_take limit t) limit"
    have len: "int (length (py_take limit t)) = limit"
      using False lim by (simp add: py_take_def)
    have sp: "1 \<le> sp" "sp \<le> limit"
      using split_point_positive [OF lim len] by (simp_all add: sp_def)
    have tne: "t \<noteq> []" using False lim by auto
    have shorter: "length (drop (nat sp) t) < length t"
      using sp tne by simp
    have "sublist (take (nat sp) t) t" "sublist (drop (nat sp) t) t"
      by simp_all
    then have "\<not> sublist ''```'' (take (nat sp) t)" and rest: "\<not> sublist ''```'' (drop (nat sp) t)"
      using less.prems by (meson sublist_order.order.trans)+
    then have even: "count_fence (take (nat sp) t) = 0"
      by (simp add: count_fence_none)
    obtain ps where ps: "chunk_loop limit (acc @ [take (nat sp) t]) (drop (nat sp) t)
          = Some ((acc @ [take (nat sp) t]) @ ps)"
        "concat ps = drop (nat sp) t" "\<forall>p \<in> set ps. int (length p) \<le> limit"
      using less.hyps [OF shorter rest, of "acc @ [take (nat sp) t]"] by blast
    have tk: "py_take sp t = take (nat sp) t" and dr: "py_drop sp t = drop (nat sp) t"
      using sp by (simp_all add: py_take_def py_drop_def)
    have "chunk_loop limit acc t = Some (acc @ take (nat sp) t # ps)"
      using False tne even ps(1)
      by (subst chunk_loop.simps) (simp add: Let_def sp_def [symmetric] tk dr)
    moreover have "concat (take (nat sp) t # ps) = t"
      using ps(2) by simp
    moreover have "\<forall>p \<in> set (take (nat sp) t # ps). int (length p) \<le> limit"
      using ps(3) sp by auto
    ultimately show ?thesis by blast
  qed
qed

lemma chunk_loop_stuck:
  assumes "chunk_loop limit acc rem = Some y"
  shows "\<not> (limit = 5 \<and> rem = ''```\<newline>xy'')"
proof (rule chunk_loop.raw_induct
    [where P = "\<lambda>l c r y. \<not> (l = 5 \<and> r = ''```\<newline>xy'')", OF _ assms], goal_cases)
  case (1 f limit chunks remaining y)
  show ?case
  proof
    assume b: "limit = 5 \<and> remaining = ''```\<newline>xy''"
    then have "f 5 (chunks @ [''```\<newline>```'']) ''```\<newline>xy'' = Some y"
      using 1(2)
      by (simp add: Let_def py_take_def py_drop_def split_point_def rfind_at_def
          rstrip_def isspace_def)
    from 1(1) [OF this] show False by simp
  qed
qed

lemma chunk_for_discord_diverges: "chunk_for_discord ''```\<newline>xy'' 5 = None"
proof (cases "chunk_loop 5 [] ''```\<newline>xy''")
  case None
  then show ?thesis by (simp add: chunk_for_discord_def)
next
  case (Some y)
  from chunk_loop_stuck [OF this] show ?thesis by simp
qed

lemma chunk_for_discord_drops_space:
  "chunk_for_discord ''```a  bcdefgh'' 6 =
     Some [''```a\<newline>```'', ''```\<newline>bc\<newline>```'', ''```\<newline>de\<newline>```'',
           ''```\<newline>fg\<newline>```'', ''```\<newline>h'']"
  by (simp add: chunk_for_discord_def chunk_loop.simps Let_def py_take_def py_drop_def
      split_point_def rfind_at_def rstrip_def isspace_def)

text \<open>
  C1, as the claim states it, fails. With the limit 6, the text made of a fence marker
  and nine letters is cut into four pieces: the first has 10 characters, more than the
  limit, since the closing fence is appended to a piece that already fills the limit;
  and the last piece holds one fence marker, an odd count, since the piece that ends
  the text is never repaired. (\<open>chunk_for_discord_drops_space\<close> shows two blanks of the
  text that no piece holds, and \<open>chunk_for_discord_diverges\<close> a text on which the loop
  never returns under the limit 5.)
\<close>

theorem chunk_for_discord_counterexample:
  "chunk_for_discord ''```aaaaaaaaa'' 6 =
     Some [''```aaa\<newline>```'', ''```\<newline>aa\<newline>```'', ''```\<newline>aa\<newline>```'', ''```\<newline>aa''] \<and>
   length ''```aaa\<newline>```'' = 10 \<and>
   count_fence ''```\<newline>aa'' = 1"
  by (simp add: chunk_for_discord_def chunk_loop.simps Let_def py_take_def py_drop_def
      split_point_def rfind_at_def rstrip_def isspace_def)

text \<open>
  C1, amended. For every text and limit:
  \<^item> a text no longer than the limit is returned as the only piece (no piece if it is
    empty);
  \<^item> if the limit is positive and the text holds no fence marker, the pieces are each
    no longer than the limit and, concatenated, are the text;
  \<^item> if the limit is at least 6, the pieces reassemble the text: each piece is the next
    part of the text (behind the re-opened fence when the piece before was closed),
    either as it is and then no longer than the limit, or with the white space at its
    end removed and a closing fence appended; the piece that ends the text is of the
    first kind; and every piece but the last holds an even count of fence markers.
\<close>

theorem chunk_for_discord_pieces:
  "(int (length text) \<le> limit \<longrightarrow>
      chunk_for_discord text limit = Some (if text = [] then [] else [text])) \<and>
   (0 < limit \<and> \<not> contains ''```'' text \<longrightarrow>
      (\<exists>ps. chunk_for_discord text limit = Some ps \<and> concat ps = text \<and>
         (\<forall>p \<in> set ps. int (length p) \<le> limit))) \<and>
   (6 \<le> limit \<longrightarrow>
      (\<exists>ps. chunk_for_discord text limit = Some ps \<and>
         reassembles limit False ps text \<and>
         (\<forall>p \<in> set (butlast ps). even (count_fence p))))"
proof -
  have short: "int (length text) \<le> limit \<longrightarrow>
      chunk_for_discord text limit = Some (if text = [] then [] else [text])"
    by (simp add: chunk_for_discord_def)
  have plain: "\<exists>ps. chunk_for_discord text limit = Some ps \<and> concat ps = text \<and>
         (\<forall>p \<in> set ps. int (length p) \<le> limit)"
    if "0 < limit" "\<not> contains ''```'' text"
  proof (cases "int (length text) \<le> limit")
    case True
    then show ?thesis by (simp add: chunk_for_discord_def)
  next
    case False
    from that have "1 \<le> limit" "\<not> sublist ''```'' text"
      by (simp_all add: contains_def)
    from chunk_loop_plain [OF this, of "[]"] False show ?thesis
      by (simp add: chunk_for_discord_def)
  qed
  have fenced: "\<exists>ps. chunk_for_discord text limit = Some ps \<and>
         reassembles limit False ps text \<and>
         (\<forall>p \<in> set (butlast ps). even (count_fence p))"
    if lim: "6 \<le> limit"
  proof (cases "int (length text) \<le> limit")
    case True
    have "reassembles limit False [opener False @ text] (text @ [])"
      using True by (intro ra_plain ra_done) (simp add: opener_def)
    then have "reassembles limit False [text] text"
      by (simp add: opener_def)
    with True show ?thesis
      by (auto simp: chunk_for_discord_def intro: ra_done)
  next
    case False
    with chunk_loop_total [OF lim, of "[]" False "text"] show ?thesis
      by (simp add: chunk_for_discord_def opener_def)
  qed
  from short plain fenced show ?thesis by blast
qed

theorem chunk_for_discord_pieces_witness:
  "int (length ''hello'') \<le> 8 \<and> chunk_for_discord ''hello'' 8 = Some [''hello''] \<and>
   (0::int) < 3 \<and> \<not> contains ''```'' ''aaa `bb` c'' \<and>
   (\<exists>ps. chunk_for_discord ''aaa `bb` c'' 3 = Some ps \<and> concat ps = ''aaa `bb` c'' \<and>
      (\<forall>p \<in> set ps. int (length p) \<le> 3)) \<and>
   (6::int) \<le> 6 \<and>
   (\<exists>ps. chunk_for_discord ''```a  bcdefgh'' 6 = Some ps \<and>
      reassembles 6 False ps ''```a  bcdefgh'' \<and>
      (\<forall>p \<in> set (butlast ps). even (count_fence p)))"
proof -
  have c: "\<not> contains ''```'' ''aaa `bb` c''"
    by (simp add: contains_def sublist_Cons_right)
  show ?thesis
    using chunk_for_discord_pieces [of "''hello''" 8]
      chunk_for_discord_pieces [of "''aaa `bb` c''" 3]
      chunk_for_discord_pieces [of "''```a  bcdefgh''" 6] c
    by simp
qed

lemma chunk_for_discord_total:
  assumes "6 \<le> limit"
  shows "\<exists>ps. chunk_for_discord s limit = Some ps"
proof (cases "int (length s) \<le> limit")
  case True
  then show ?thesis by (simp add: chunk_for_discord_def)
next
  case False
  with chunk_loop_total [OF assms, of "[]" False s] show ?thesis
    by (auto simp: chunk_for_discord_def opener_def)
qed

subsection \<open>Stream output formatter\<close>

text \<open>
  C5. \<open>StreamBuffer.feed\<close>, for each kind of event:
  \<^item> an assistant event with text returns that text at once and empties the buffer of
    accumulated deltas;
  \<^item> a delta event appends its fragment to the buffer; the buffer is returned and
    emptied exactly when its length has reached the flush threshold, and otherwise
    nothing is returned and the buffer keeps the fragment;
  \<^item> a result event returns whatever the buffer holds, of any size (nothing if it is
    empty), and leaves it empty;
  \<^item> an error event returns its text behind the error prefix at once and leaves the
    buffer as it is.
  And \<open>StreamOutputFormatter.feed\<close> on a result event returns the chunks of what the
  buffer held, leaves the buffer empty, and replaces the status snapshot: afterwards the
  snapshot holds the model name, the two token counts, the cost and the session id of
  the event, whatever it held before.
\<close>

theorem StreamBuffer_feed_rules:
  "(ev_type ev = ''assistant'' \<and> ev_content ev \<noteq> [] \<longrightarrow>
      fst (StreamBuffer_feed ev b) = Some (ev_content ev) \<and>
      sb_content_buffer (snd (StreamBuffer_feed ev b)) = []) \<and>
   (ev_type ev = ''content_block_delta'' \<longrightarrow>
      (if int (length (sb_content_buffer b @ ev_content ev)) \<ge> sb_flush_threshold b
       then fst (StreamBuffer_feed ev b) = Some (sb_content_buffer b @ ev_content ev) \<and>
            sb_content_buffer (snd (StreamBuffer_feed ev b)) = []
       else fst (StreamBuffer_feed ev b) = None \<and>
            sb_content_buffer (snd (StreamBuffer_feed ev b)) =
              sb_content_buffer b @ ev_content ev)) \<and>
   (ev_type ev = ''result'' \<longrightarrow>
      fst (StreamBuffer_feed ev b) =
        (if sb_content_buffer b = [] then None else Some (sb_content_buffer b)) \<and>
      sb_content_buffer (snd (StreamBuffer_feed ev b)) = []) \<and>
   (ev_type ev = ''error'' \<longrightarrow>
      fst (StreamBuffer_feed ev b) = Some (''**Error:** '' @ ev_content ev) \<and>
      sb_content_buffer (snd (StreamBuffer_feed ev b)) = sb_content_buffer b) \<and>
   (ev_type ev = ''result'' \<longrightarrow>
      (\<exists>chunks f'. StreamOutputFormatter_feed py_str ev f = Some (Inr (chunks, f')) \<and>
         chunk_for_discord (sb_content_buffer (fm_buffer f)) DISCORD_MSG_LIMIT = Some chunks \<and>
         sb_content_buffer (fm_buffer f') = [] \<and>
         fm_status f' =
           \<lparr>si_model = ev_model ev, si_input_tokens = ev_input_tokens ev,
            si_output_tokens = ev_output_tokens ev, si_cost_usd = ev_cost_usd ev,
            si_session_id = ev_session_id ev\<rparr>))"
proof -
  have buf: "ev_type ev = ''result'' \<longrightarrow>
      fst (StreamBuffer_feed ev b) =
        (if sb_content_buffer b = [] then None else Some (sb_content_buffer b)) \<and>
      sb_content_buffer (snd (StreamBuffer_feed ev b)) = []" for b
    by (simp add: StreamBuffer_feed_def StreamBuffer_flush_def Let_def)
  have fmt: "\<exists>chunks f'. StreamOutputFormatter_feed py_str ev f = Some (Inr (chunks, f')) \<and>
         chunk_for_discord (sb_content_buffer (fm_buffer f)) DISCORD_MSG_LIMIT = Some chunks \<and>
         sb_content_buffer (fm_buffer f') = [] \<and>
         fm_status f' =
           \<lparr>si_model = ev_model ev, si_input_tokens = ev_input_tokens ev,
            si_output_tokens = ev_output_tokens ev, si_cost_usd = ev_cost_usd ev,
            si_session_id = ev_session_id ev\<rparr>" if r: "ev_type ev = ''result''"
  proof -
    obtain ps where ps:
      "chunk_for_discord (sb_content_buffer (fm_buffer f)) DISCORD_MSG_LIMIT = Some ps"
      using chunk_for_discord_total [of DISCORD_MSG_LIMIT] by (auto simp: DISCORD_MSG_LIMIT_def)
    have e: "chunk_for_discord [] DISCORD_MSG_LIMIT = Some []"
      by (simp add: chunk_for_discord_def DISCORD_MSG_LIMIT_def)
    show ?thesis
      using r buf [of "fm_buffer f"] ps e
      by (cases "sb_content_buffer (fm_buffer f) = []")
        (simp_all add: StreamOutputFormatter_feed_def format_tool_use_def truthy_def Let_def
          from_event_def)
  qed
  show ?thesis
    using buf [of b] fmt
    by (simp add: StreamBuffer_feed_def StreamBuffer_flush_def Let_def)
qed

theorem StreamBuffer_feed_rules_witness:
  "fst (StreamBuffer_feed (StreamEvent_make ''assistant'' ''hi'' :: int StreamEvent)
          (StreamBuffer_init\<lparr>sb_content_buffer := ''old''\<rparr>)) = Some ''hi'' \<and>
   sb_content_buffer (snd (StreamBuffer_feed (StreamEvent_make ''assistant'' ''hi'' :: int StreamEvent)
          (StreamBuffer_init\<lparr>sb_content_buffer := ''old''\<rparr>))) = [] \<and>
   fst (StreamBuffer_feed (StreamEvent_make ''content_block_delta'' ''lo'' :: int StreamEvent)
          (StreamBuffer_init\<lparr>sb_content_buffer := ''hel'', sb_flush_threshold := 5\<rparr>))
     = Some ''hello'' \<and>
   fst (StreamBuffer_feed (StreamEvent_make ''content_block_delta'' ''lo'' :: int StreamEvent)
          (StreamBuffer_init\<lparr>sb_content_buffer := ''hel''\<rparr>)) = None \<and>
   sb_content_buffer (snd (StreamBuffer_feed
          (StreamEvent_make ''content_block_delta'' ''lo'' :: int StreamEvent)
          (StreamBuffer_init\<lparr>sb_content_buffer := ''hel''\<rparr>))) = ''hello'' \<and>
   fst (StreamBuffer_feed (StreamEvent_make ''result'' ''done'' :: int StreamEvent)
          (StreamBuffer_init\<lparr>sb_content_buffer := ''hel''\<rparr>)) = Some ''hel'' \<and>
   fst (StreamBuffer_feed (StreamEvent_make ''error'' ''boom'' :: int StreamEvent)
          (StreamBuffer_init\<lparr>sb_content_buffer := ''hel''\<rparr>)) = Some ''**Error:** boom'' \<and>
   sb_content_buffer (snd (StreamBuffer_feed (StreamEvent_make ''error'' ''boom'' :: int StreamEvent)
          (StreamBuffer_init\<lparr>sb_content_buffer := ''hel''\<rparr>))) = ''hel'' \<and>
   fm_status (StreamOutputFormatter_init :: int StreamOutputFormatter) =
     \<lparr>si_model = None, si_input_tokens = 0, si_output_tokens = 0, si_cost_usd = 0,
      si_session_id = None\<rparr> \<and>
   (\<exists>chunks f'. StreamOutputFormatter_feed (\<lambda>v. [])
        ((StreamEvent_make ''result'' ''done'')
           \<lparr>ev_session_id := Some ''abc'', ev_model := Some ''opus'', ev_input_tokens := 10,
            ev_output_tokens := 5, ev_cost_usd := 3\<rparr>)
        ((StreamOutputFormatter_init :: int StreamOutputFormatter)
           \<lparr>fm_buffer := StreamBuffer_init\<lparr>sb_content_buffer := ''hel''\<rparr>\<rparr>)
        = Some (Inr (chunks, f')) \<and>
      chunk_for_discord ''hel'' DISCORD_MSG_LIMIT = Some chunks \<and>
      sb_content_buffer (fm_buffer f') = [] \<and>
      fm_status f' =
        \<lparr>si_model = Some ''opus'', si_input_tokens = 10, si_output_tokens = 5, si_cost_usd = 3,
         si_session_id = Some ''abc''\<rparr>)"
proof -
  have "\<exists>chunks f'. StreamOutputFormatter_feed (\<lambda>v. [])
        ((StreamEvent_make ''result'' ''done'')
           \<lparr>ev_session_id := Some ''abc'', ev_model := Some ''opus'', ev_input_tokens := 10,
            ev_output_tokens := 5, ev_cost_usd := 3\<rparr>)
        ((StreamOutputFormatter_init :: int StreamOutputFormatter)
           \<lparr>fm_buffer := StreamBuffer_init\<lparr>sb_content_buffer := ''hel''\<rparr>\<rparr>)
        = Some (Inr (chunks, f')) \<and>
      chunk_for_discord ''hel'' DISCORD_MSG_LIMIT = Some chunks \<and>
      sb_content_buffer (fm_buffer f') = [] \<and>
      fm_status f' =
        \<lparr>si_model = Some ''opus'', si_input_tokens = 10, si_output_tokens = 5, si_cost_usd = 3,
         si_session_id = Some ''abc''\<rparr>"
    using StreamBuffer_feed_rules [of "(StreamEvent_make ''result'' ''done'')
           \<lparr>ev_session_id := Some ''abc'', ev_model := Some ''opus'', ev_input_tokens := 10,
            ev_output_tokens := 5, ev_cost_usd := 3\<rparr> :: int StreamEvent"
      "StreamBuffer_init" "\<lambda>v. []"
      "StreamOutputFormatter_init\<lparr>fm_buffer := StreamBuffer_init\<lparr>sb_content_buffer := ''hel''\<rparr>\<rparr>"]
    by (simp add: StreamEvent_make_def)
  then show ?thesis
  using StreamBuffer_feed_rules [of "StreamEvent_make ''assistant'' ''hi'' :: int StreamEvent"
      "StreamBuffer_init\<lparr>sb_content_buffer := ''old''\<rparr>" "\<lambda>v. []" StreamOutputFormatter_init]
    StreamBuffer_feed_rules [of "StreamEvent_make ''content_block_delta'' ''lo'' :: int StreamEvent"
      "StreamBuffer_init\<lparr>sb_content_buffer := ''hel'', sb_flush_threshold := 5\<rparr>"
      "\<lambda>v. []" StreamOutputFormatter_init]
    StreamBuffer_feed_rules [of "StreamEvent_make ''content_block_delta'' ''lo'' :: int StreamEvent"
      "StreamBuffer_init\<lparr>sb_content_buffer := ''hel''\<rparr>" "\<lambda>v. []" StreamOutputFormatter_init]
    StreamBuffer_feed_rules [of "StreamEvent_make ''result'' ''done'' :: int StreamEvent"
      "StreamBuffer_init\<lparr>sb_content_buffer := ''hel''\<rparr>" "\<lambda>v. []" StreamOutputFormatter_init]
    StreamBuffer_feed_rules [of "StreamEvent_make ''error'' ''boom'' :: int StreamEvent"
      "StreamBuffer_init\<lparr>sb_content_buffer := ''hel''\<rparr>" "\<lambda>v. []" StreamOutputFormatter_init]
  by (simp add: StreamEvent_make_def StreamBuffer_init_def StreamOutputFormatter_init_def)
qed

subsection \<open>Streaming transport\<close>

lemma send_message_iterate_last:
  "snd (send_message_iterate (events @ [(now, ev)]) stop s) =
     (on_event_read now ev (foldl (\<lambda>s (now, event). on_event_read now event s) s events))
       \<lparr>ss_process := None\<rparr>"
  by (simp add: send_message_iterate_def)

text \<open>
  C7, as the claim states it, fails: a result event without a session id is not folded
  into the totals. Such an event, with 10 input tokens, 5 output tokens and a cost, read
  by a new session, leaves the totals of the session at zero.
\<close>

theorem on_event_read_counterexample:
  "ss_total_input_tokens (snd (send_message_iterate
      [(7, (StreamEvent_make ''result'' ''ok'')
             \<lparr>ev_input_tokens := 10, ev_output_tokens := 5, ev_cost_usd := 3\<rparr>)]
      Exhausted (StreamSession_new ''42'' [''ws'', ''42''] API_KEY 0 :: int StreamSession))) = 0 \<and>
   ss_total_output_tokens (snd (send_message_iterate
      [(7, (StreamEvent_make ''result'' ''ok'')
             \<lparr>ev_input_tokens := 10, ev_output_tokens := 5, ev_cost_usd := 3\<rparr>)]
      Exhausted (StreamSession_new ''42'' [''ws'', ''42''] API_KEY 0 :: int StreamSession))) = 0 \<and>
   ss_total_cost_usd (snd (send_message_iterate
      [(7, (StreamEvent_make ''result'' ''ok'')
             \<lparr>ev_input_tokens := 10, ev_output_tokens := 5, ev_cost_usd := 3\<rparr>)]
      Exhausted (StreamSession_new ''42'' [''ws'', ''42''] API_KEY 0 :: int StreamSession))) = 0"
  by (simp add: send_message_iterate_def on_event_read_def StreamEvent_make_def
      StreamSession_new_def truthy_def)

text \<open>
  C7, amended. For every result event read by the loop of \<open>send_message\<close>: if the event
  carries a session id that is not empty, that id replaces the stored one, the token
  counts and the cost are added to the totals, and the model name replaces the stored
  one if it is present and not empty (else the stored one stays); if the event carries
  no session id, or an empty one, the session is left as it is but for the time of the
  last activity.
\<close>

theorem on_event_read_result:
  assumes "ev_type ev = ''result''"
  shows "(truthy (ev_session_id ev) \<longrightarrow>
            ss_session_id (on_event_read now ev s) = ev_session_id ev \<and>
            ss_model (on_event_read now ev s) =
              (if truthy (ev_model ev) then ev_model ev else ss_model s) \<and>
            ss_total_input_tokens (on_event_read now ev s) =
              ss_total_input_tokens s + ev_input_tokens ev \<and>
            ss_total_output_tokens (on_event_read now ev s) =
              ss_total_output_tokens s + ev_output_tokens ev \<and>
            ss_total_cost_usd (on_event_read now ev s) =
              ss_total_cost_usd s + ev_cost_usd ev) \<and>
         (\<not> truthy (ev_session_id ev) \<longrightarrow>
            on_event_read now ev s = s\<lparr>ss_last_activity := now\<rparr>)"
  using assms by (simp add: on_event_read_def Let_def)

theorem on_event_read_result_witness:
  "ev_type ((StreamEvent_make ''result'' ''ok'')
      \<lparr>ev_session_id := Some ''abc'', ev_input_tokens := 10, ev_output_tokens := 5,
       ev_cost_usd := (3::int)\<rparr>) = ''result'' \<and>
   ss_session_id (on_event_read 7 ((StreamEvent_make ''result'' ''ok'')
      \<lparr>ev_session_id := Some ''abc'', ev_input_tokens := 10, ev_output_tokens := 5,
       ev_cost_usd := (3::int)\<rparr>)
      ((StreamSession_new ''42'' [''ws'', ''42''] API_KEY 0)\<lparr>ss_total_input_tokens := 1\<rparr>))
     = Some ''abc'' \<and>
   ss_total_input_tokens (on_event_read 7 ((StreamEvent_make ''result'' ''ok'')
      \<lparr>ev_session_id := Some ''abc'', ev_input_tokens := 10, ev_output_tokens := 5,
       ev_cost_usd := (3::int)\<rparr>)
      ((StreamSession_new ''42'' [''ws'', ''42''] API_KEY 0)\<lparr>ss_total_input_tokens := 1\<rparr>))
     = 11 \<and>
   on_event_read 7 (StreamEvent_make ''result'' ''ok'')
      (StreamSession_new ''42'' [''ws'', ''42''] API_KEY 0 :: int StreamSession)
     = (StreamSession_new ''42'' [''ws'', ''42''] API_KEY 0)\<lparr>ss_last_activity := 7\<rparr>"
  using on_event_read_result [of "(StreamEvent_make ''result'' ''ok'')
      \<lparr>ev_session_id := Some ''abc'', ev_input_tokens := 10, ev_output_tokens := 5,
       ev_cost_usd := (3::int)\<rparr>" 7
      "(StreamSession_new ''42'' [''ws'', ''42''] API_KEY 0)\<lparr>ss_total_input_tokens := 1\<rparr>"]
    on_event_read_result [of "StreamEvent_make ''result'' ''ok'' :: int StreamEvent" 7
      "StreamSession_new ''42'' [''ws'', ''42''] API_KEY 0"]
  by (simp add: StreamEvent_make_def StreamSession_new_def truthy_def)

lemma send_message_start_not_busy:
  "\<not> is_busy s pt \<Longrightarrow>
     send_message_start now None message s pt =
       (Inr (), s\<lparr>ss_process := Some (length (pt_procs pt)), ss_last_activity := now\<rparr>,
        pt\<lparr>pt_procs := pt_procs pt @ [(ss_user_id s, build_command s message True)]\<rparr>)"
  by (simp add: send_message_start_def spawn_def)

lemma send_message_start_busy_iff:
  "fst (send_message_start now launch message s pt) = Inl busy_error \<longleftrightarrow>
     is_busy s pt \<or> launch = Some busy_error"
  by (auto simp: send_message_start_def Let_def split: option.splits)

text \<open>
  C10. When the iteration over the events of \<open>send_message\<close> ends, however it ends (the
  stream is exhausted, an exception or a cancellation is raised, the consumer closes the
  generator), the process handle of the session is \<open>None\<close> and the session is not busy,
  whatever the state of the child processes. And when \<open>send_message\<close> as a whole is
  called on a session that is not busy, the session is not busy after it, and the next
  message passes the busy check: it creates its subprocess.
\<close>

theorem send_message_clears_process:
  "ss_process (snd (send_message_iterate events stop s)) = None \<and>
   \<not> is_busy (snd (send_message_iterate events stop s)) pt' \<and>
   (\<not> is_busy s pt \<longrightarrow>
      \<not> is_busy (fst (snd (send_message now launch message events stop s pt)))
          (snd (snd (send_message now launch message events stop s pt))) \<and>
      fst (send_message_start now' None message'
          (fst (snd (send_message now launch message events stop s pt)))
          (snd (snd (send_message now launch message events stop s pt)))) = Inr ())"
proof -
  have a: "ss_process (snd (send_message_iterate events stop s)) = None" for s :: "'a StreamSession"
    by (simp add: send_message_iterate_def)
  then have b: "\<not> is_busy (snd (send_message_iterate events stop s)) pt'"
    for s :: "'a StreamSession" and pt'
    by (simp add: is_busy_def)
  have c: "\<not> is_busy (fst (snd (send_message now launch message events stop s pt)))
          (snd (snd (send_message now launch message events stop s pt)))"
    if "\<not> is_busy s pt"
    using that b by (cases launch) (simp_all add: send_message_def send_message_start_def Let_def)
  show ?thesis
    using a b c by (simp add: send_message_start_not_busy)
qed

theorem send_message_clears_process_witness:
  "\<not> is_busy (StreamSession_new ''42'' [''ws'', ''42''] API_KEY 0 :: int StreamSession)
      \<lparr>pt_procs = [], pt_returncode = (\<lambda>p. None), pt_signals = []\<rparr> \<and>
   ss_process (fst (snd (send_message 1 None ''hi'' [(2, StreamEvent_make ''assistant'' ''yo'')]
      (Raised CancelledError) (StreamSession_new ''42'' [''ws'', ''42''] API_KEY 0 :: int StreamSession)
      \<lparr>pt_procs = [], pt_returncode = (\<lambda>p. None), pt_signals = []\<rparr>))) = None \<and>
   \<not> is_busy (fst (snd (send_message 1 None ''hi'' [(2, StreamEvent_make ''assistant'' ''yo'')]
      (Raised CancelledError) (StreamSession_new ''42'' [''ws'', ''42''] API_KEY 0 :: int StreamSession)
      \<lparr>pt_procs = [], pt_returncode = (\<lambda>p. None), pt_signals = []\<rparr>)))
     (snd (snd (send_message 1 None ''hi'' [(2, StreamEvent_make ''assistant'' ''yo'')]
      (Raised CancelledError) (StreamSession_new ''42'' [''ws'', ''42''] API_KEY 0 :: int StreamSession)
      \<lparr>pt_procs = [], pt_returncode = (\<lambda>p. None), pt_signals = []\<rparr>)))"
proof -
  have n: "\<not> is_busy (StreamSession_new ''42'' [''ws'', ''42''] API_KEY 0 :: int StreamSession)
      \<lparr>pt_procs = [], pt_returncode = (\<lambda>p. None), pt_signals = []\<rparr>"
    by (simp add: is_busy_def StreamSession_new_def)
  have p: "ss_process (fst (snd (send_message 1 None ''hi'' [(2, StreamEvent_make ''assistant'' ''yo'')]
      (Raised CancelledError) (StreamSession_new ''42'' [''ws'', ''42''] API_KEY 0 :: int StreamSession)
      \<lparr>pt_procs = [], pt_returncode = (\<lambda>p. None), pt_signals = []\<rparr>))) = None"
    by (simp add: send_message_def send_message_start_def send_message_iterate_def
        is_busy_def StreamSession_new_def Let_def)
  show ?thesis
    using n p send_message_clears_process [of "[(2, StreamEvent_make ''assistant'' ''yo'')]"
        "Raised CancelledError" "StreamSession_new ''42'' [''ws'', ''42''] API_KEY 0 :: int StreamSession"
        "\<lparr>pt_procs = [], pt_returncode = (\<lambda>p. None), pt_signals = []\<rparr>"
        "\<lparr>pt_procs = [], pt_returncode = (\<lambda>p. None), pt_signals = []\<rparr>" 1 None "''hi''" 3 "''again''"]
    by simp
qed

text \<open>
  C3. On a session that is busy, \<open>send_message\<close> fails with the busy error, yields no
  event, and leaves the session and the child processes as they are: no second process
  is created. When \<open>cancel\<close> has completed, the session is not busy, and the next
  \<open>send_message\<close> passes the busy check and creates its subprocess. On a busy session
  \<open>cancel\<close> asks the child to terminate, kills it if it has not ended within the grace
  period, and clears the process handle; the child has then ended.
\<close>

theorem busy_rejected_and_cancel_frees:
  "(is_busy s pt \<longrightarrow>
      send_message now launch message events stop s pt = ((Inl busy_error, []), s, pt)) \<and>
   (fst (cancel g s pt) = Inr () \<longrightarrow>
      \<not> is_busy (fst (snd (cancel g s pt))) (snd (snd (cancel g s pt))) \<and>
      send_message_start now None message (fst (snd (cancel g s pt))) (snd (snd (cancel g s pt))) =
        (Inr (),
         (fst (snd (cancel g s pt)))
           \<lparr>ss_process := Some (length (pt_procs pt)), ss_last_activity := now\<rparr>,
         (snd (snd (cancel g s pt)))
           \<lparr>pt_procs := pt_procs pt @ [(ss_user_id s, build_command s message True)]\<rparr>)) \<and>
   (is_busy s pt \<and> g \<noteq> WaitCancelled \<longrightarrow>
      ss_process (fst (snd (cancel g s pt))) = None \<and>
      pt_signals (snd (snd (cancel g s pt))) =
        pt_signals pt @ (the (ss_process s), SIGTERM) #
          (if g = Timeout then [(the (ss_process s), SIGKILL)] else []) \<and>
      pt_returncode (snd (snd (cancel g s pt))) (the (ss_process s)) \<noteq> None)"
proof -
  have a: "is_busy s pt \<longrightarrow>
      send_message now launch message events stop s pt = ((Inl busy_error, []), s, pt)"
    by (simp add: send_message_def send_message_start_def)
  have nb: "\<not> is_busy (fst (snd (cancel g s pt))) (snd (snd (cancel g s pt)))"
    if "fst (cancel g s pt) = Inr ()"
    using that
    by (cases "ss_process s"; cases g)
      (auto simp: cancel_def is_busy_def send_signal_def Let_def split: if_splits)
  have pr: "pt_procs (snd (snd (cancel g s pt))) = pt_procs pt"
    by (cases "ss_process s"; cases g) (auto simp: cancel_def send_signal_def Let_def)
  have bc: "build_command (fst (snd (cancel g s pt))) message True = build_command s message True"
      "ss_user_id (fst (snd (cancel g s pt))) = ss_user_id s"
    by (cases "ss_process s"; cases g; auto simp: cancel_def build_command_def Let_def)+
  have b: "fst (cancel g s pt) = Inr () \<longrightarrow>
      \<not> is_busy (fst (snd (cancel g s pt))) (snd (snd (cancel g s pt))) \<and>
      send_message_start now None message (fst (snd (cancel g s pt))) (snd (snd (cancel g s pt))) =
        (Inr (),
         (fst (snd (cancel g s pt)))
           \<lparr>ss_process := Some (length (pt_procs pt)), ss_last_activity := now\<rparr>,
         (snd (snd (cancel g s pt)))
           \<lparr>pt_procs := pt_procs pt @ [(ss_user_id s, build_command s message True)]\<rparr>)"
    using nb by (simp add: send_message_start_not_busy pr bc)
  have c: "is_busy s pt \<and> g \<noteq> WaitCancelled \<longrightarrow>
      ss_process (fst (snd (cancel g s pt))) = None \<and>
      pt_signals (snd (snd (cancel g s pt))) =
        pt_signals pt @ (the (ss_process s), SIGTERM) #
          (if g = Timeout then [(the (ss_process s), SIGKILL)] else []) \<and>
      pt_returncode (snd (snd (cancel g s pt))) (the (ss_process s)) \<noteq> None"
    by (cases "ss_process s"; cases g)
      (auto simp: cancel_def is_busy_def send_signal_def Let_def)
  from a b c show ?thesis by blast
qed

theorem busy_rejected_and_cancel_frees_witness:
  "is_busy ((StreamSession_new ''42'' [''ws'', ''42''] API_KEY 0 :: int StreamSession)
        \<lparr>ss_process := Some 0\<rparr>)
      \<lparr>pt_procs = [(''42'', [''claude''])], pt_returncode = (\<lambda>p. None), pt_signals = []\<rparr> \<and>
   send_message 2 None ''hi'' [] Exhausted
      ((StreamSession_new ''42'' [''ws'', ''42''] API_KEY 0 :: int StreamSession)
        \<lparr>ss_process := Some 0\<rparr>)
      \<lparr>pt_procs = [(''42'', [''claude''])], pt_returncode = (\<lambda>p. None), pt_signals = []\<rparr>
    = ((Inl busy_error, []),
       (StreamSession_new ''42'' [''ws'', ''42''] API_KEY 0)\<lparr>ss_process := Some 0\<rparr>,
       \<lparr>pt_procs = [(''42'', [''claude''])], pt_returncode = (\<lambda>p. None), pt_signals = []\<rparr>) \<and>
   fst (cancel Timeout
      ((StreamSession_new ''42'' [''ws'', ''42''] API_KEY 0 :: int StreamSession)
        \<lparr>ss_process := Some 0\<rparr>)
      \<lparr>pt_procs = [(''42'', [''claude''])], pt_returncode = (\<lambda>p. None), pt_signals = []\<rparr>) = Inr () \<and>
   pt_signals (snd (snd (cancel Timeout
      ((StreamSession_new ''42'' [''ws'', ''42''] API_KEY 0 :: int StreamSession)
        \<lparr>ss_process := Some 0\<rparr>)
      \<lparr>pt_procs = [(''42'', [''claude''])], pt_returncode = (\<lambda>p. None), pt_signals = []\<rparr>)))
    = [(0, SIGTERM), (0, SIGKILL)] \<and>
   fst (send_message_start 2 None ''hi''
      (fst (snd (cancel Timeout
        ((StreamSession_new ''42'' [''ws'', ''42''] API_KEY 0 :: int StreamSession)
          \<lparr>ss_process := Some 0\<rparr>)
        \<lparr>pt_procs = [(''42'', [''claude''])], pt_returncode = (\<lambda>p. None), pt_signals = []\<rparr>)))
      (snd (snd (cancel Timeout
        ((StreamSession_new ''42'' [''ws'', ''42''] API_KEY 0 :: int StreamSession)
          \<lparr>ss_process := Some 0\<rparr>)
        \<lparr>pt_procs = [(''42'', [''claude''])], pt_returncode = (\<lambda>p. None), pt_signals = []\<rparr>)))) = Inr ()"
proof -
  have b: "is_busy ((StreamSession_new ''42'' [''ws'', ''42''] API_KEY 0 :: int StreamSession)
        \<lparr>ss_process := Some 0\<rparr>)
      \<lparr>pt_procs = [(''42'', [''claude''])], pt_returncode = (\<lambda>p. None), pt_signals = []\<rparr>"
    by (simp add: is_busy_def StreamSession_new_def)
  have c: "fst (cancel Timeout
      ((StreamSession_new ''42'' [''ws'', ''42''] API_KEY 0 :: int StreamSession)
        \<lparr>ss_process := Some 0\<rparr>)
      \<lparr>pt_procs = [(''42'', [''claude''])], pt_returncode = (\<lambda>p. None), pt_signals = []\<rparr>) = Inr ()"
    by (simp add: cancel_def StreamSession_new_def Let_def)
  show ?thesis
    using b c busy_rejected_and_cancel_frees [of
        "(StreamSession_new ''42'' [''ws'', ''42''] API_KEY 0 :: int StreamSession)
          \<lparr>ss_process := Some 0\<rparr>"
        "\<lparr>pt_procs = [(''42'', [''claude''])], pt_returncode = (\<lambda>p. None), pt_signals = []\<rparr>"
        2 None "''hi''" "[]" Exhausted Timeout]
    by (simp add: StreamSession_new_def)
qed

subsection \<open>Stopping a session\<close>

lemma send_signal_returncode_kept:
  "pt_returncode pt p \<noteq> None \<Longrightarrow> pt_returncode (send_signal q sig pt) p \<noteq> None"
  by (auto simp: send_signal_def Let_def)

lemma PTYSession_terminate_ends:
  "\<not> PTYSession_is_alive p (w_pt (snd (PTYSession_terminate exited p w)))"
  by (cases "pty_process p"; cases exited)
    (auto simp: PTYSession_terminate_def PTYSession_is_alive_def send_signal_def Let_def)

lemma PTYSession_terminate_frame:
  "w_fs (snd (PTYSession_terminate exited p w)) = w_fs w"
  "w_tasks (snd (PTYSession_terminate exited p w)) = w_tasks w"
  "w_open_fds (snd (PTYSession_terminate exited p w)) =
     (if pty_master_fd p \<ge> 0 then w_open_fds w - {pty_master_fd p} else w_open_fds w)"
  by (simp_all add: PTYSession_terminate_def Let_def)

lemma path_exists_plain:
  "fs p = None \<Longrightarrow> \<not> path_exists fs p"
  "fs p = Some Dir \<Longrightarrow> path_exists fs p"
  "fs p = Some (File t) \<Longrightarrow> path_exists fs p"
  by (simp_all add: path_exists_def eval_nat_numeral)

lemma rmtree_Inr:
  "rmtree p fs = Inr fs' \<Longrightarrow> fs p = Some Dir \<and> fs' = (\<lambda>q. if prefix p q then None else fs q)"
  by (auto simp: rmtree_def split: option.splits node.splits)

lemma rmtree_Inl:
  "rmtree p fs = Inl e \<Longrightarrow> fs p \<noteq> Some Dir"
  by (auto simp: rmtree_def)

lemma cleanup_sandbox_keeps:
  assumes "cleanup_sandbox cfg user_id False fs = Inr fs'"
    and "\<not> prefix (get_user_workspace cfg user_id @ [''tmp'']) q"
  shows "fs' q = fs q"
  using assms
  by (auto simp: cleanup_sandbox_def Let_def dest!: rmtree_Inr split: if_splits)

lemma cleanup_sandbox_clears:
  assumes "cleanup_sandbox cfg user_id False fs = Inr fs'"
    and "path_exists fs (get_user_workspace cfg user_id)"
    and "path_exists fs (get_user_workspace cfg user_id @ [''tmp''])"
    and "prefix (get_user_workspace cfg user_id @ [''tmp'']) q"
  shows "fs' q = None"
  using assms
  by (auto simp: cleanup_sandbox_def Let_def dest!: rmtree_Inr split: if_splits)

lemma cleanup_sandbox_raised:
  assumes "cleanup_sandbox cfg user_id False fs = Inl e"
  shows "path_exists fs (get_user_workspace cfg user_id) \<and>
         path_exists fs (get_user_workspace cfg user_id @ [''tmp'']) \<and>
         rmtree (get_user_workspace cfg user_id @ [''tmp'']) fs = Inl e"
  using assms
  by (auto simp: cleanup_sandbox_def Let_def split: if_splits)

text \<open>
  \<open>cleanup_sandbox\<close> completes unless the workspace holds, under the name \<open>tmp\<close>,
  something that exists and is not itself a directory: a regular file, or a link that
  leads somewhere.
\<close>

lemma cleanup_sandbox_completes_iff:
  "(\<exists>fs'. cleanup_sandbox cfg user_id False fs = Inr fs') \<longleftrightarrow>
     \<not> (path_exists fs (get_user_workspace cfg user_id) \<and>
        path_exists fs (get_user_workspace cfg user_id @ [''tmp''])) \<or>
     fs (get_user_workspace cfg user_id @ [''tmp'']) = Some Dir"
  by (auto simp: cleanup_sandbox_def rmtree_def Let_def split: option.splits node.splits)

lemma stop_session_absent:
  "sm_sessions m user_id = None \<Longrightarrow>
     stop_session cfg exited user_id m w =
       (Inr (), m\<lparr>sm_output_callbacks := (sm_output_callbacks m)(user_id := None)\<rparr>, w)"
  by (simp add: stop_session_def)

lemma stop_session_present:
  assumes "sm_sessions m user_id = Some session"
  shows "stop_session cfg exited user_id m w =
     (case cleanup_sandbox cfg user_id False (w_fs w) of
        Inl e \<Rightarrow>
          (Inl e, m\<lparr>sm_sessions := (sm_sessions m)(user_id := None)\<rparr>,
           snd (PTYSession_terminate exited (us_pty session)
                  (case us_output_task session of
                     None \<Rightarrow> w | Some t \<Rightarrow> w\<lparr>w_tasks := w_tasks w - {t}\<rparr>)))
      | Inr fs' \<Rightarrow>
          (Inr (),
           m\<lparr>sm_sessions := (sm_sessions m)(user_id := None),
             sm_output_callbacks := (sm_output_callbacks m)(user_id := None)\<rparr>,
           (snd (PTYSession_terminate exited (us_pty session)
                   (case us_output_task session of
                      None \<Rightarrow> w | Some t \<Rightarrow> w\<lparr>w_tasks := w_tasks w - {t}\<rparr>)))
             \<lparr>w_fs := fs'\<rparr>))"
proof -
  have "w_fs (case us_output_task session of
                None \<Rightarrow> w | Some t \<Rightarrow> w\<lparr>w_tasks := w_tasks w - {t}\<rparr>) = w_fs w"
    by (cases "us_output_task session") simp_all
  then show ?thesis
    using assms
    by (simp add: stop_session_def Let_def PTYSession_terminate_frame split: sum.splits)
qed

lemma stop_session_completes_iff:
  "(\<exists>m' w'. stop_session cfg exited user_id m w = (Inr (), m', w')) \<longleftrightarrow>
     sm_sessions m user_id = None \<or>
     \<not> (path_exists (w_fs w) (get_user_workspace cfg user_id) \<and>
        path_exists (w_fs w) (get_user_workspace cfg user_id @ [''tmp''])) \<or>
     w_fs w (get_user_workspace cfg user_id @ [''tmp'']) = Some Dir"
proof (cases "sm_sessions m user_id")
  case None
  then show ?thesis by (simp add: stop_session_absent)
next
  case (Some session)
  have "(\<exists>m' w'. stop_session cfg exited user_id m w = (Inr (), m', w')) \<longleftrightarrow>
      (\<exists>fs'. cleanup_sandbox cfg user_id False (w_fs w) = Inr fs')"
    by (cases "cleanup_sandbox cfg user_id False (w_fs w)")
      (simp_all add: stop_session_present [OF Some])
  then show ?thesis
    using Some by (simp add: cleanup_sandbox_completes_iff)
qed

text \<open>
  A call of \<open>stop_session\<close> that completes. A second call for the same user changes
  nothing. The session is out of the table and its transport is released: the child
  has ended, the master descriptor is closed, the output task is cancelled. In the
  workspace of the user the directory \<open>tmp\<close> is gone with what was below it, and
  nothing else: every other path, the workspace directory itself among them, is as it
  was.
\<close>

lemma stop_session_completed:
  assumes "stop_session cfg exited user_id m w = (Inr (), m', w')"
  shows "stop_session cfg exited' user_id m' w' = (Inr (), m', w')"
    and "sm_sessions m' = (sm_sessions m)(user_id := None)"
    and "sm_output_callbacks m' = (sm_output_callbacks m)(user_id := None)"
    and "sm_sessions m user_id = Some session \<Longrightarrow>
           \<not> PTYSession_is_alive (us_pty session) (w_pt w')"
    and "sm_sessions m user_id = Some session \<Longrightarrow> pty_master_fd (us_pty session) \<ge> 0 \<Longrightarrow>
           pty_master_fd (us_pty session) \<notin> w_open_fds w'"
    and "sm_sessions m user_id = Some session \<Longrightarrow> us_output_task session = Some t \<Longrightarrow>
           t \<notin> w_tasks w'"
    and "\<not> prefix (get_user_workspace cfg user_id @ [''tmp'']) q \<Longrightarrow> w_fs w' q = w_fs w q"
    and "sm_sessions m user_id = Some session \<Longrightarrow>
           path_exists (w_fs w) (get_user_workspace cfg user_id) \<Longrightarrow>
           path_exists (w_fs w) (get_user_workspace cfg user_id @ [''tmp'']) \<Longrightarrow>
           prefix (get_user_workspace cfg user_id @ [''tmp'']) q \<Longrightarrow> w_fs w' q = None"
proof -
  show gone: "sm_sessions m' = (sm_sessions m)(user_id := None)"
    using assms
    by (cases "sm_sessions m user_id")
      (auto simp: stop_session_absent stop_session_present split: sum.splits)
  show cb: "sm_output_callbacks m' = (sm_output_callbacks m)(user_id := None)"
    using assms
    by (cases "sm_sessions m user_id")
      (auto simp: stop_session_absent stop_session_present split: sum.splits)
  have "m'\<lparr>sm_output_callbacks := (sm_output_callbacks m')(user_id := None)\<rparr> = m'"
    by (simp add: cb)
  then show "stop_session cfg exited' user_id m' w' = (Inr (), m', w')"
    using stop_session_absent [of m' user_id cfg exited' w'] gone by simp
  show "\<not> PTYSession_is_alive (us_pty session) (w_pt w')"
    if "sm_sessions m user_id = Some session"
    using assms PTYSession_terminate_ends [of "us_pty session" exited]
    by (auto simp: stop_session_present [OF that] split: sum.splits)
  show "pty_master_fd (us_pty session) \<notin> w_open_fds w'"
    if "sm_sessions m user_id = Some session" "pty_master_fd (us_pty session) \<ge> 0"
    using assms that(2)
    by (auto simp: stop_session_present [OF that(1)] PTYSession_terminate_frame
        split: sum.splits)
  show "t \<notin> w_tasks w'"
    if "sm_sessions m user_id = Some session" "us_output_task session = Some t"
    using assms that(2)
    by (auto simp: stop_session_present [OF that(1)] PTYSession_terminate_frame
        split: sum.splits)
  show "w_fs w' q = w_fs w q"
    if "\<not> prefix (get_user_workspace cfg user_id @ [''tmp'']) q"
    using assms that
    by (cases "sm_sessions m user_id")
      (auto simp: stop_session_absent stop_session_present cleanup_sandbox_keeps
        split: sum.splits)
  show "w_fs w' q = None"
    if "sm_sessions m user_id = Some session"
      "path_exists (w_fs w) (get_user_workspace cfg user_id)"
      "path_exists (w_fs w) (get_user_workspace cfg user_id @ [''tmp''])"
      "prefix (get_user_workspace cfg user_id @ [''tmp'']) q"
    using assms that(2-)
    by (auto simp: stop_session_present [OF that(1)] cleanup_sandbox_clears split: sum.splits)
qed

text \<open>
  A call of \<open>stop_session\<close> that raises. The user had a session, which is out of the
  table, and its child has ended; the exception is the one of \<open>shutil.rmtree\<close> on
  \<open>tmp\<close>; the file system and the output callbacks are as they were.
\<close>

lemma stop_session_raised:
  assumes "stop_session cfg exited user_id m w = (Inl e, m', w')"
  shows "\<exists>session. sm_sessions m user_id = Some session \<and>
           \<not> PTYSession_is_alive (us_pty session) (w_pt w')"
    and "m' = m\<lparr>sm_sessions := (sm_sessions m)(user_id := None)\<rparr>"
    and "w_fs w' = w_fs w"
    and "rmtree (get_user_workspace cfg user_id @ [''tmp'']) (w_fs w) = Inl e"
proof -
  obtain session where s: "sm_sessions m user_id = Some session"
    using assms by (cases "sm_sessions m user_id") (auto simp: stop_session_absent)
  have c: "cleanup_sandbox cfg user_id False (w_fs w) = Inl e"
    using assms by (auto simp: stop_session_present [OF s] split: sum.splits)
  show "\<exists>session. sm_sessions m user_id = Some session \<and>
           \<not> PTYSession_is_alive (us_pty session) (w_pt w')"
    using assms s c PTYSession_terminate_ends [of "us_pty session" exited]
    by (auto simp: stop_session_present [OF s])
  show "m' = m\<lparr>sm_sessions := (sm_sessions m)(user_id := None)\<rparr>"
    using assms c by (simp add: stop_session_present [OF s])
  show "w_fs w' = w_fs w"
    using assms c
    by (cases "us_output_task session")
      (auto simp: stop_session_present [OF s] PTYSession_terminate_frame)
  show "rmtree (get_user_workspace cfg user_id @ [''tmp'']) (w_fs w) = Inl e"
    using cleanup_sandbox_raised [OF c] by simp
qed

lemma example_workspace: "get_user_workspace example_config ''42'' = [''ws'', ''42'']"
  by (simp add: get_user_workspace_def example_config_def isalnum_def Let_def)

lemma example_stop_session:
  "stop_session example_config None ''42'' example_manager example_world =
     (Inr (),
      \<lparr>sm_sessions = Map.empty, sm_output_callbacks = Map.empty, sm_cleanup_task = None\<rparr>,
      \<lparr>w_pt = \<lparr>pt_procs = [(''42'', [''bwrap''])],
               pt_returncode = (\<lambda>p. None)(0 \<mapsto> - 9),
               pt_signals = [(0, SIGTERM), (0, SIGKILL)]\<rparr>,
       w_open_fds = {}, w_tasks = {},
       w_fs = (\<lambda>q. if prefix [''ws'', ''42'', ''tmp''] q then None
                    else w_fs example_world q)\<rparr>)"
proof -
  have s: "sm_sessions example_manager ''42'' = Some example_session"
    by (simp add: example_manager_def)
  have e: "path_exists (w_fs example_world) [''ws'', ''42'']"
      "path_exists (w_fs example_world) [''ws'', ''42'', ''tmp'']"
    by (rule path_exists_plain(2), simp add: example_world_def)+
  have d: "w_fs example_world [''ws'', ''42'', ''tmp''] = Some Dir"
    by (simp add: example_world_def)
  have c: "cleanup_sandbox example_config ''42'' False (w_fs example_world) =
      Inr (\<lambda>q. if prefix [''ws'', ''42'', ''tmp''] q then None else w_fs example_world q)"
    using e d by (simp add: cleanup_sandbox_def example_workspace Let_def rmtree_def)
  show ?thesis
    by (simp add: stop_session_present [OF s] c)
      (simp add: example_manager_def example_world_def example_session_def
        PTYSession_terminate_def send_signal_def Let_def)
qed


subsection \<open>Starting a session\<close>

lemma resolve_auth_method_given:
  "resolve_auth_method read_json cfg user_id (Some a) fs = Inr a"
  by (simp add: resolve_auth_method_def)

text \<open>
  The detection of the authentication method can itself raise: a credentials file whose
  text is valid JSON but no object, such as a number, makes \<open>validate_credentials_json\<close>
  raise \<open>TypeError\<close>, which \<open>has_valid_credentials\<close> does not catch.
\<close>

lemma get_auth_method_TypeError:
  assumes "fs (get_credentials_path cfg user_id) = Some (File content)"
    and "read_json content = Inr (JInt n)"
  shows "get_auth_method read_json cfg user_id fs = Inl TypeError"
  using assms
  by (simp add: get_auth_method_def has_valid_credentials_def validate_credentials_json_def
      py_contains_def is_OSError_def eval_nat_numeral)

text \<open>
  Past the check of the authentication method, \<open>start_session\<close> of the PTY variant
  raises \<open>TypeError\<close> at its call of \<open>setup_sandbox\<close> and changes nothing.
\<close>

lemma start_session_fresh_TypeError:
  assumes "resolve_auth_method read_json cfg user_id auth_method (w_fs w1) = Inr a"
    and "a \<noteq> NONE"
  shows "start_session_fresh read_json cfg env user_id resume auth_method m1 w1 =
     (Inl TypeError, m1, w1)"
  using assms by (simp add: start_session_fresh_def setup_sandbox_call_def)

lemma start_session_fresh_frame:
  "snd (start_session_fresh read_json cfg env user_id resume auth_method m1 w1) = (m1, w1)"
  by (simp add: start_session_fresh_def setup_sandbox_call_def split: sum.splits)

lemma start_session_absent:
  "sm_sessions m user_id = None \<Longrightarrow>
     start_session read_json cfg env user_id resume auth_method m w =
       start_session_fresh read_json cfg env user_id resume auth_method m w"
  by (simp add: start_session_def domIff)

text \<open>
  The user 7 has no session, and a credentials file that holds the number 123: the call
  raises \<open>TypeError\<close>, although an API key is set.
\<close>

lemma example_credentials_number:
  "start_session example_read_json example_config example_env ''7'' None None example_manager
      (example_world\<lparr>w_fs := (w_fs example_world)
         ([''ws'', ''7'', ''.claude'', ''.credentials.json''] \<mapsto> File ''123'')\<rparr>) =
     (Inl TypeError, example_manager,
      example_world\<lparr>w_fs := (w_fs example_world)
         ([''ws'', ''7'', ''.claude'', ''.credentials.json''] \<mapsto> File ''123'')\<rparr>)"
proof -
  have s: "sm_sessions example_manager ''7'' = None"
    by (simp add: example_manager_def)
  have p: "get_credentials_path example_config ''7'' =
      [''ws'', ''7'', ''.claude'', ''.credentials.json'']"
    by (simp add: get_credentials_path_def get_user_workspace_def example_config_def
        isalnum_def Let_def)
  have r: "example_read_json ''123'' = Inr (JInt 123)"
    by (simp add: example_read_json_def)
  have "get_auth_method example_read_json example_config ''7''
      ((w_fs example_world)
         ([''ws'', ''7'', ''.claude'', ''.credentials.json''] \<mapsto> File ''123'')) = Inl TypeError"
    using get_auth_method_TypeError [where read_json = example_read_json
        and content = "''123''" and n = 123 and cfg = example_config and user_id = "''7''"
        and fs = "(w_fs example_world)
          ([''ws'', ''7'', ''.claude'', ''.credentials.json''] \<mapsto> File ''123'')"] r
    by (simp add: p)
  then show ?thesis
    by (simp add: start_session_absent [OF s] start_session_fresh_def resolve_auth_method_def)
qed

lemma start_session_stop_completed:
  assumes "sm_sessions m user_id \<noteq> None"
    and "stop_session cfg (se_exited env) user_id m w = (Inr (), m1, w1)"
  shows "start_session read_json cfg env user_id resume auth_method m w =
     start_session_fresh read_json cfg env user_id resume auth_method m1 w1"
  using assms by (simp add: start_session_def domIff)

lemma start_session_stop_raised:
  assumes "sm_sessions m user_id \<noteq> None"
    and "stop_session cfg (se_exited env) user_id m w = (Inl e, m1, w1)"
  shows "start_session read_json cfg env user_id resume auth_method m w = (Inl e, m1, w1)"
  using assms by (simp add: start_session_def domIff)

lemma start_session_state:
  "sm_sessions m user_id \<noteq> None \<Longrightarrow>
     snd (start_session read_json cfg env user_id resume auth_method m w) =
       snd (stop_session cfg (se_exited env) user_id m w)"
  by (cases "stop_session cfg (se_exited env) user_id m w" rule: prod_cases3)
    (auto simp: start_session_def domIff start_session_fresh_frame split: sum.splits)

lemma example_no_key_workspace:
  "get_user_workspace (example_config\<lparr>ANTHROPIC_API_KEY := None\<rparr>) ''42'' = [''ws'', ''42'']"
  "get_user_workspace (example_config\<lparr>ANTHROPIC_API_KEY := None\<rparr>) ''7'' = [''ws'', ''7'']"
  by (simp_all add: get_user_workspace_def example_config_def isalnum_def Let_def)

lemma example_no_key_stop_session:
  "stop_session (example_config\<lparr>ANTHROPIC_API_KEY := None\<rparr>) None ''42'' example_manager
      example_world =
     stop_session example_config None ''42'' example_manager example_world"
proof -
  have "cleanup_sandbox (example_config\<lparr>ANTHROPIC_API_KEY := None\<rparr>) ''42'' False fs =
      cleanup_sandbox example_config ''42'' False fs" for fs
    by (simp add: cleanup_sandbox_def example_workspace example_no_key_workspace)
  then show ?thesis
    by (simp add: stop_session_def Let_def split: option.splits)
qed

lemma example_no_key_resolve:
  assumes "fs [''ws'', user_id, ''.claude'', ''.credentials.json''] = None"
    and "get_user_workspace (example_config\<lparr>ANTHROPIC_API_KEY := None\<rparr>) user_id =
      [''ws'', user_id]"
  shows "resolve_auth_method example_read_json (example_config\<lparr>ANTHROPIC_API_KEY := None\<rparr>)
      user_id None fs = Inr NONE"
  using assms
  by (simp add: resolve_auth_method_def get_auth_method_def has_valid_credentials_def
      get_credentials_path_def truthy_def eval_nat_numeral)

text \<open>
  C6, as the claim states it, fails where the user already has a session. The PTY
  variant stops that session before it looks at the authentication, so the call fails
  with the authentication error but the session table has lost its entry; the streaming
  variant returns the existing session before it looks at the authentication, so the
  call does not fail. Here no credentials are stored and no API key is set.
\<close>

theorem start_session_without_auth_counterexample:
  "resolve_auth_method example_read_json (example_config\<lparr>ANTHROPIC_API_KEY := None\<rparr>) ''42''
      None (w_fs example_world) = Inr NONE \<and>
   sm_sessions example_manager ''42'' = Some example_session \<and>
   fst (start_session example_read_json (example_config\<lparr>ANTHROPIC_API_KEY := None\<rparr>)
      example_env ''42'' None None example_manager example_world) = Inl auth_error \<and>
   sm_sessions (fst (snd (start_session example_read_json
      (example_config\<lparr>ANTHROPIC_API_KEY := None\<rparr>) example_env
      ''42'' None None example_manager example_world))) ''42'' = None \<and>
   fst (StreamSessionManager_start_session example_read_json
      (example_config\<lparr>ANTHROPIC_API_KEY := None\<rparr>) 9 ''42'' None
      example_stream_manager (w_fs example_world)) =
     Inr \<lparr>uss_user_id = ''42'',
          uss_stream = StreamSession_new ''42'' [''ws'', ''42''] API_KEY 1,
          uss_formatter = StreamOutputFormatter_init,
          uss_created_at = 1, uss_current_task = None\<rparr>"
proof -
  let ?cfg = "example_config\<lparr>ANTHROPIC_API_KEY := None\<rparr>"
  have a: "resolve_auth_method example_read_json ?cfg ''42'' None (w_fs example_world) = Inr NONE"
    by (rule example_no_key_resolve) (simp_all add: example_world_def example_no_key_workspace)
  have s: "sm_sessions example_manager ''42'' = Some example_session"
    by (simp add: example_manager_def)
  have e: "se_exited example_env = None"
    by (simp add: example_env_def)
  have a1: "resolve_auth_method example_read_json ?cfg ''42'' None
      (\<lambda>q. if prefix [''ws'', ''42'', ''tmp''] q then None else w_fs example_world q) = Inr NONE"
    by (rule example_no_key_resolve) (simp_all add: example_world_def example_no_key_workspace)
  have "start_session example_read_json ?cfg example_env ''42'' None None example_manager
      example_world =
    (Inl auth_error,
     \<lparr>sm_sessions = Map.empty, sm_output_callbacks = Map.empty, sm_cleanup_task = None\<rparr>,
     snd (snd (stop_session example_config None ''42'' example_manager example_world)))"
    using s a1
    by (simp add: start_session_def domI e example_no_key_stop_session example_stop_session
        start_session_fresh_def)
  then show ?thesis
    using a s by (simp add: StreamSessionManager_start_session_def example_stream_manager_def)
qed

text \<open>
  C6, amended. Let the authentication method resolve to none (none given and none
  detected, or none given explicitly). For a user without a session, \<open>start_session\<close>
  of either variant fails with the authentication error and leaves the session table
  (and everything else) as it is. For a user with a session, the PTY variant stops that
  session first; if that completes and the method then resolves to none, the call fails
  with the authentication error in the state that \<open>stop_session\<close> has left, where the
  table has no session for the user and the sessions of all other users. The streaming
  variant returns the session of a user who has one, whatever the authentication, and
  changes nothing.
\<close>

theorem start_session_without_auth:
  "(sm_sessions m user_id = None \<and>
      resolve_auth_method read_json cfg user_id auth_method (w_fs w) = Inr NONE \<longrightarrow>
      start_session read_json cfg env user_id resume auth_method m w =
        (Inl auth_error, m, w)) \<and>
   (sm_sessions m user_id \<noteq> None \<and>
      stop_session cfg (se_exited env) user_id m w = (Inr (), m1, w1) \<and>
      resolve_auth_method read_json cfg user_id auth_method (w_fs w1) = Inr NONE \<longrightarrow>
      start_session read_json cfg env user_id resume auth_method m w =
        (Inl auth_error, m1, w1) \<and>
      sm_sessions m1 = (sm_sessions m)(user_id := None)) \<and>
   (ssm_sessions sm user_id = None \<and>
      resolve_auth_method read_json cfg user_id auth_method fs = Inr NONE \<longrightarrow>
      StreamSessionManager_start_session read_json cfg now user_id auth_method sm fs =
        (Inl auth_error, sm, fs)) \<and>
   (ssm_sessions sm user_id = Some session \<longrightarrow>
      StreamSessionManager_start_session read_json cfg now user_id auth_method sm fs =
        (Inr session, sm, fs))"
proof -
  have p1: "start_session read_json cfg env user_id resume auth_method m w =
        (Inl auth_error, m, w)"
    if "sm_sessions m user_id = None"
      "resolve_auth_method read_json cfg user_id auth_method (w_fs w) = Inr NONE"
    using that by (simp add: start_session_absent start_session_fresh_def)
  have p2: "start_session read_json cfg env user_id resume auth_method m w =
        (Inl auth_error, m1, w1) \<and>
      sm_sessions m1 = (sm_sessions m)(user_id := None)"
    if "sm_sessions m user_id \<noteq> None"
      "stop_session cfg (se_exited env) user_id m w = (Inr (), m1, w1)"
      "resolve_auth_method read_json cfg user_id auth_method (w_fs w1) = Inr NONE"
    using that stop_session_completed(2) [OF that(2)]
    by (simp add: start_session_stop_completed [OF that(1,2)] start_session_fresh_def)
  have s1: "StreamSessionManager_start_session read_json cfg now user_id auth_method sm fs =
        (Inl auth_error, sm, fs)"
    if "ssm_sessions sm user_id = None"
      "resolve_auth_method read_json cfg user_id auth_method fs = Inr NONE"
    using that by (simp add: StreamSessionManager_start_session_def)
  have s2: "StreamSessionManager_start_session read_json cfg now user_id auth_method sm fs =
        (Inr session, sm, fs)"
    if "ssm_sessions sm user_id = Some session"
    using that by (simp add: StreamSessionManager_start_session_def)
  from p1 p2 s1 s2 show ?thesis by blast
qed

theorem start_session_without_auth_witness:
  "resolve_auth_method example_read_json (example_config\<lparr>ANTHROPIC_API_KEY := None\<rparr>) ''7''
      None (w_fs example_world) = Inr NONE \<and>
   sm_sessions example_manager ''7'' = None \<and>
   start_session example_read_json (example_config\<lparr>ANTHROPIC_API_KEY := None\<rparr>) example_env
      ''7'' None None example_manager example_world
     = (Inl auth_error, example_manager, example_world) \<and>
   ssm_sessions example_stream_manager ''7'' = None \<and>
   StreamSessionManager_start_session example_read_json
      (example_config\<lparr>ANTHROPIC_API_KEY := None\<rparr>) 9 ''7'' None
      example_stream_manager (w_fs example_world)
     = (Inl auth_error, example_stream_manager, w_fs example_world) \<and>
   sm_sessions example_manager ''42'' = Some example_session \<and>
   fst (stop_session (example_config\<lparr>ANTHROPIC_API_KEY := None\<rparr>) (se_exited example_env)
      ''42'' example_manager example_world) = Inr () \<and>
   start_session example_read_json (example_config\<lparr>ANTHROPIC_API_KEY := None\<rparr>) example_env
      ''42'' None None example_manager example_world
     = (Inl auth_error,
        snd (stop_session (example_config\<lparr>ANTHROPIC_API_KEY := None\<rparr>) (se_exited example_env)
          ''42'' example_manager example_world)) \<and>
   sm_sessions (fst (snd (stop_session (example_config\<lparr>ANTHROPIC_API_KEY := None\<rparr>)
      (se_exited example_env) ''42'' example_manager example_world))) ''42'' = None \<and>
   fst (StreamSessionManager_start_session example_read_json
      (example_config\<lparr>ANTHROPIC_API_KEY := None\<rparr>) 9 ''42'' None
      example_stream_manager (w_fs example_world)) =
     Inr \<lparr>uss_user_id = ''42'',
          uss_stream = StreamSession_new ''42'' [''ws'', ''42''] API_KEY 1,
          uss_formatter = StreamOutputFormatter_init,
          uss_created_at = 1, uss_current_task = None\<rparr>"
proof -
  let ?cfg = "example_config\<lparr>ANTHROPIC_API_KEY := None\<rparr>"
  let ?m1 = "\<lparr>sm_sessions = Map.empty, sm_output_callbacks = Map.empty,
      sm_cleanup_task = None\<rparr> :: unit SessionManager"
  let ?w1 = "\<lparr>w_pt = \<lparr>pt_procs = [(''42'', [''bwrap''])],
               pt_returncode = (\<lambda>p. None)(0 \<mapsto> - 9),
               pt_signals = [(0, SIGTERM), (0, SIGKILL)]\<rparr>,
       w_open_fds = {}, w_tasks = {},
       w_fs = (\<lambda>q. if prefix [''ws'', ''42'', ''tmp''] q then None
                    else w_fs example_world q)\<rparr>"
  have a7: "resolve_auth_method example_read_json ?cfg ''7'' None (w_fs example_world) = Inr NONE"
    by (rule example_no_key_resolve) (simp_all add: example_world_def example_no_key_workspace)
  have s7: "sm_sessions example_manager ''7'' = None"
      "ssm_sessions example_stream_manager ''7'' = None"
    by (simp_all add: example_manager_def example_stream_manager_def)
  have s42: "sm_sessions example_manager ''42'' = Some example_session"
      "ssm_sessions example_stream_manager ''42'' =
         Some \<lparr>uss_user_id = ''42'',
           uss_stream = StreamSession_new ''42'' [''ws'', ''42''] API_KEY 1,
           uss_formatter = StreamOutputFormatter_init,
           uss_created_at = 1, uss_current_task = None\<rparr>"
    by (simp_all add: example_manager_def example_stream_manager_def)
  have e: "se_exited example_env = None"
    by (simp add: example_env_def)
  have st: "stop_session ?cfg (se_exited example_env) ''42'' example_manager example_world =
      (Inr (), ?m1, ?w1)"
    by (simp add: e example_no_key_stop_session example_stop_session)
  have a42: "resolve_auth_method example_read_json ?cfg ''42'' None (w_fs ?w1) = Inr NONE"
    by (rule example_no_key_resolve) (simp_all add: example_world_def example_no_key_workspace)
  show ?thesis
    using start_session_without_auth [where m = example_manager and user_id = "''7''"
        and read_json = example_read_json and cfg = ?cfg and auth_method = None
        and w = example_world and env = example_env and resume = None
        and ?m1.0 = ?m1 and ?w1.0 = ?w1 and sm = example_stream_manager
        and fs = "w_fs example_world" and now = 9]
      start_session_without_auth [where m = example_manager and user_id = "''42''"
        and read_json = example_read_json and cfg = ?cfg and auth_method = None
        and w = example_world and env = example_env and resume = None
        and ?m1.0 = ?m1 and ?w1.0 = ?w1 and sm = example_stream_manager
        and fs = "w_fs example_world" and now = 9
        and session = "\<lparr>uss_user_id = ''42'',
           uss_stream = StreamSession_new ''42'' [''ws'', ''42''] API_KEY 1,
           uss_formatter = StreamOutputFormatter_init,
           uss_created_at = 1, uss_current_task = None\<rparr>"]
      a7 s7 s42 a42 st
    by simp
qed

subsection \<open>Starting a session for a user who has one\<close>

lemma live_transports_iff:
  "p \<in> live_transports pt u \<longleftrightarrow>
     p < length (pt_procs pt) \<and> fst (pt_procs pt ! p) = u \<and> pt_returncode pt p = None"
  by (auto simp: live_transports_def)

lemma terminate_pt_procs:
  "pt_procs (w_pt (snd (PTYSession_terminate exited p w))) = pt_procs (w_pt w)"
  by (cases "pty_process p"; cases exited)
    (simp_all add: PTYSession_terminate_def send_signal_def Let_def)

lemma terminate_pt_ended:
  "pt_returncode (w_pt (snd (PTYSession_terminate exited p w))) q = None
     \<Longrightarrow> pt_returncode (w_pt w) q = None"
  by (cases "pty_process p"; cases exited)
    (simp_all add: PTYSession_terminate_def send_signal_def Let_def split: if_splits)

lemma stop_session_pt:
  assumes "sm_sessions m user_id = Some old"
  shows "w_pt (snd (snd (stop_session cfg exited user_id m w))) =
     w_pt (snd (PTYSession_terminate exited (us_pty old) w))"
proof -
  have "w_pt (snd (PTYSession_terminate exited (us_pty old)
           (case us_output_task old of
              None \<Rightarrow> w | Some t \<Rightarrow> w\<lparr>w_tasks := w_tasks w - {t}\<rparr>))) =
      w_pt (snd (PTYSession_terminate exited (us_pty old) w))"
    by (cases "us_output_task old"; cases "pty_process (us_pty old)")
      (simp_all add: PTYSession_terminate_def Let_def)
  then show ?thesis
    by (cases "cleanup_sandbox cfg user_id False (w_fs w)")
      (simp_all add: stop_session_present [OF assms])
qed

lemma stop_session_sessions:
  "sm_sessions (fst (snd (stop_session cfg exited user_id m w))) =
     (sm_sessions m)(user_id := None)"
proof (cases "sm_sessions m user_id")
  case None
  then show ?thesis by (simp add: stop_session_absent fun_upd_idem)
next
  case (Some old)
  show ?thesis
    by (cases "cleanup_sandbox cfg user_id False (w_fs w)")
      (simp_all add: stop_session_present [OF Some])
qed

lemma ex_inv: "manager_inv example_manager (w_pt example_world)"
  by (auto simp: manager_inv_def example_manager_def example_world_def example_session_def
      live_transports_iff)

text \<open>
  The example state, with an API key set: the call of the PTY variant stops the session
  of user 42 and then raises \<open>TypeError\<close>, so that the user is left without a session.
\<close>

lemma example_start_session:
  "start_session example_read_json example_config example_env ''42'' None None
      example_manager example_world =
     (Inl TypeError,
      snd (stop_session example_config None ''42'' example_manager example_world))"
proof -
  have s: "sm_sessions example_manager ''42'' \<noteq> None"
    by (simp add: example_manager_def)
  have e: "se_exited example_env = None"
    by (simp add: example_env_def)
  have n: "w_fs example_world [''ws'', ''42'', ''.claude'', ''.credentials.json''] = None"
    by (simp add: example_world_def)
  have a: "resolve_auth_method example_read_json example_config ''42'' None
      (\<lambda>q. if prefix [''ws'', ''42'', ''tmp''] q then None else w_fs example_world q) =
        Inr API_KEY"
    using n
    by (simp add: resolve_auth_method_def get_auth_method_def has_valid_credentials_def
        get_credentials_path_def example_workspace truthy_def eval_nat_numeral)
      (simp add: example_config_def)
  have st: "stop_session example_config (se_exited example_env) ''42'' example_manager
      example_world =
     (Inr (),
      \<lparr>sm_sessions = Map.empty, sm_output_callbacks = Map.empty, sm_cleanup_task = None\<rparr>,
      \<lparr>w_pt = \<lparr>pt_procs = [(''42'', [''bwrap''])],
               pt_returncode = (\<lambda>p. None)(0 \<mapsto> - 9),
               pt_signals = [(0, SIGTERM), (0, SIGKILL)]\<rparr>,
       w_open_fds = {}, w_tasks = {},
       w_fs = (\<lambda>q. if prefix [''ws'', ''42'', ''tmp''] q then None
                    else w_fs example_world q)\<rparr>)"
    by (simp add: e example_stop_session)
  have n: "API_KEY \<noteq> NONE"
    by simp
  show ?thesis
    by (simp add: start_session_stop_completed [OF s st]
        start_session_fresh_TypeError [OF _ n] a example_stop_session)
qed

text \<open>
  C2, as the claim states it, fails for the streaming variant: \<open>start_session\<close> returns
  the session that exists. Here the user 42 has a session created at the time 1; the
  call at the time 9 returns this very session and leaves the manager as it is, so the
  prior session is neither torn down nor replaced.
\<close>

theorem start_session_replaces_counterexample:
  "ssm_sessions example_stream_manager ''42'' =
     Some \<lparr>uss_user_id = ''42'',
           uss_stream = StreamSession_new ''42'' [''ws'', ''42''] API_KEY 1,
           uss_formatter = StreamOutputFormatter_init,
           uss_created_at = 1, uss_current_task = None\<rparr> \<and>
   fst (StreamSessionManager_start_session example_read_json example_config 9 ''42'' None
      example_stream_manager (w_fs example_world)) =
     Inr \<lparr>uss_user_id = ''42'',
          uss_stream = StreamSession_new ''42'' [''ws'', ''42''] API_KEY 1,
          uss_formatter = StreamOutputFormatter_init,
          uss_created_at = 1, uss_current_task = None\<rparr> \<and>
   fst (snd (StreamSessionManager_start_session example_read_json example_config 9 ''42'' None
      example_stream_manager (w_fs example_world))) = example_stream_manager"
  by (simp add: StreamSessionManager_start_session_def example_stream_manager_def)

text \<open>
  C2, amended. Let the user have a session. The PTY variant stops it first: whatever
  comes of the call, the child of the prior session has ended, the table does not hold
  the prior session any more, and the sessions of all other users are in the table as
  before; and if every live transport belonged to a session of the table before the
  call, then none of the transports that the user had before the call is live after
  it. The streaming variant returns the session that exists and changes nothing: the
  table still holds that one session for the user.
\<close>

theorem start_session_existing:
  assumes "sm_sessions m user_id = Some old"
  shows "\<not> PTYSession_is_alive (us_pty old)
           (w_pt (snd (snd (start_session read_json cfg env user_id resume auth_method m w)))) \<and>
         sm_sessions (fst (snd (start_session read_json cfg env user_id resume auth_method m w)))
           user_id \<noteq> Some old \<and>
         (sm_sessions (fst (snd (start_session read_json cfg env user_id resume auth_method
            m w))))(user_id := None) = (sm_sessions m)(user_id := None) \<and>
         (manager_inv m (w_pt w) \<longrightarrow>
            live_transports
              (w_pt (snd (snd (start_session read_json cfg env user_id resume auth_method m w))))
              user_id \<inter> {..<length (pt_procs (w_pt w))} = {}) \<and>
         (ssm_sessions sm user_id = Some session \<longrightarrow>
            StreamSessionManager_start_session read_json cfg now user_id auth_method sm fs =
              (Inr session, sm, fs))"
proof -
  let ?R = "start_session read_json cfg env user_id resume auth_method m w"
  let ?pt' = "w_pt (snd (PTYSession_terminate (se_exited env) (us_pty old) w))"
  have st: "snd ?R = snd (stop_session cfg (se_exited env) user_id m w)"
    using assms by (simp add: start_session_state)
  have pt: "w_pt (snd (snd ?R)) = ?pt'"
    by (simp add: st stop_session_pt [OF assms])
  have sess: "sm_sessions (fst (snd ?R)) = (sm_sessions m)(user_id := None)"
    by (simp add: st stop_session_sessions)
  have pe: "\<not> PTYSession_is_alive (us_pty old) (w_pt (snd (snd ?R)))"
    by (simp add: pt PTYSession_terminate_ends)
  have lt: "live_transports (w_pt (snd (snd ?R))) user_id \<inter> {..<length (pt_procs (w_pt w))} = {}"
    if inv: "manager_inv m (w_pt w)"
  proof -
    have False if p: "p \<in> live_transports ?pt' user_id" for p
    proof -
      from p have "pt_returncode ?pt' p = None"
        by (simp add: live_transports_iff)
      then have "pt_returncode (w_pt w) p = None"
        by (rule terminate_pt_ended)
      with p have "p \<in> live_transports (w_pt w) user_id"
        by (simp add: live_transports_iff terminate_pt_procs)
      with inv obtain s where "sm_sessions m user_id = Some s" "pty_process (us_pty s) = Some p"
        unfolding manager_inv_def by blast
      with assms have "pty_process (us_pty old) = Some p" by simp
      with p have "PTYSession_is_alive (us_pty old) ?pt'"
        by (simp add: PTYSession_is_alive_def live_transports_iff)
      then show False by (simp add: PTYSession_terminate_ends)
    qed
    then show ?thesis by (auto simp: pt)
  qed
  have str: "StreamSessionManager_start_session read_json cfg now user_id auth_method sm fs =
      (Inr session, sm, fs)" if "ssm_sessions sm user_id = Some session"
    using that by (simp add: StreamSessionManager_start_session_def)
  from pe sess lt str show ?thesis by simp
qed

theorem start_session_existing_witness:
  "sm_sessions example_manager ''42'' = Some example_session \<and>
   manager_inv example_manager (w_pt example_world) \<and>
   live_transports (w_pt example_world) ''42'' = {0} \<and>
   PTYSession_is_alive (us_pty example_session) (w_pt example_world) \<and>
   \<not> PTYSession_is_alive (us_pty example_session)
      (w_pt (snd (snd (start_session example_read_json example_config example_env ''42'' None
         None example_manager example_world)))) \<and>
   sm_sessions (fst (snd (start_session example_read_json example_config example_env ''42''
      None None example_manager example_world))) ''42'' \<noteq> Some example_session \<and>
   live_transports
      (w_pt (snd (snd (start_session example_read_json example_config example_env ''42'' None
         None example_manager example_world)))) ''42'' \<inter> {..<1} = {} \<and>
   ssm_sessions example_stream_manager ''42'' =
     Some \<lparr>uss_user_id = ''42'',
           uss_stream = StreamSession_new ''42'' [''ws'', ''42''] API_KEY 1,
           uss_formatter = StreamOutputFormatter_init,
           uss_created_at = 1, uss_current_task = None\<rparr> \<and>
   StreamSessionManager_start_session example_read_json example_config 9 ''42'' None
      example_stream_manager (w_fs example_world) =
     (Inr \<lparr>uss_user_id = ''42'',
           uss_stream = StreamSession_new ''42'' [''ws'', ''42''] API_KEY 1,
           uss_formatter = StreamOutputFormatter_init,
           uss_created_at = 1, uss_current_task = None\<rparr>,
      example_stream_manager, w_fs example_world)"
proof -
  have s: "sm_sessions example_manager ''42'' = Some example_session"
    by (simp add: example_manager_def)
  have ss: "ssm_sessions example_stream_manager ''42'' =
     Some \<lparr>uss_user_id = ''42'',
           uss_stream = StreamSession_new ''42'' [''ws'', ''42''] API_KEY 1,
           uss_formatter = StreamOutputFormatter_init,
           uss_created_at = 1, uss_current_task = None\<rparr>"
    by (simp add: example_stream_manager_def)
  have a: "PTYSession_is_alive (us_pty example_session) (w_pt example_world)"
    by (simp add: PTYSession_is_alive_def example_session_def example_world_def)
  have l: "length (pt_procs (w_pt example_world)) = 1"
    by (simp add: example_world_def)
  have t: "live_transports (w_pt example_world) ''42'' = {0}"
    by (auto simp: live_transports_iff example_world_def)
  show ?thesis
    using start_session_existing [OF s, where read_json = example_read_json
        and cfg = example_config and env = example_env and resume = None
        and auth_method = None and w = example_world and sm = example_stream_manager
        and now = 9 and fs = "w_fs example_world"]
      s ss a l t ex_inv
    by simp
qed


end
